theory Spec2Isabelle
  imports Complex_Main "HOL-Library.Word"
begin

section \<open>Python values\<close>

text \<open>
  A Python float is a finite double, an infinity or a NaN. No arithmetic is done on
  telemetry scalars by the code below; only \<open>math.isfinite\<close> looks at them.
\<close>

datatype pyfloat = Finite real | PosInf | NegInf | NaN

text \<open>
  What \<open>json.loads\<close> builds: \<open>None\<close>, \<open>bool\<close>, \<open>int\<close>, \<open>float\<close> (the decoder
  accepts the literals \<open>NaN\<close>, \<open>Infinity\<close> and \<open>-Infinity\<close>), \<open>str\<close>, \<open>list\<close> and
  \<open>dict\<close> (an association list, looked up with \<open>map_of\<close>).
\<close>

datatype json =
    JNull
  | JBool bool
  | JInt int
  | JFloat pyfloat
  | JStr string
  | JArr "json list"
  | JObj "(string \<times> json) list"

type_synonym bytes = "8 word list"

section \<open>Exceptions\<close>

text \<open>
  The exception classes the code raises, catches or registers a handler for.
  \<open>AsyncioTimeoutError\<close> is \<open>asyncio.TimeoutError\<close> where that is a class of its own;
  \<open>OtherError n\<close> is any other direct subclass of \<open>Exception\<close>, named \<open>n\<close>;
  \<open>HTTPException s\<close> is FastAPI's, with its status code.
\<close>

datatype exn_class =
    StateException
  | ValueError
  | KeyError
  | IndexError
  | RuntimeError
  | TimeoutError
  | AsyncioTimeoutError
  | TypeError
  | OverflowError
  | InvalidStateError
  | Go2ConnectionError
  | HTTPException nat
  | OtherError string
  | Exception

text \<open>An exception object: its class and the one argument it was raised with.\<close>

datatype exn = Exn exn_class json

fun exn_cls :: "exn \<Rightarrow> exn_class" where
  "exn_cls (Exn c a) = c"

fun exn_arg :: "exn \<Rightarrow> json" where
  "exn_arg (Exn c a) = a"

text \<open>\<open>type(exc).__name__\<close>.\<close>

fun class_name :: "exn_class \<Rightarrow> string" where
  "class_name StateException = ''StateException''"
| "class_name ValueError = ''ValueError''"
| "class_name KeyError = ''KeyError''"
| "class_name IndexError = ''IndexError''"
| "class_name RuntimeError = ''RuntimeError''"
| "class_name TimeoutError = ''TimeoutError''"
| "class_name AsyncioTimeoutError = ''TimeoutError''"
| "class_name TypeError = ''TypeError''"
| "class_name OverflowError = ''OverflowError''"
| "class_name InvalidStateError = ''InvalidStateError''"
| "class_name Go2ConnectionError = ''Go2ConnectionError''"
| "class_name (HTTPException s) = ''HTTPException''"
| "class_name (OtherError n) = n"
| "class_name Exception = ''Exception''"

subsection \<open>\<open>repr\<close> and \<open>str\<close>\<close>

definition hex_digit :: "nat \<Rightarrow> char" where
  "hex_digit n = ''0123456789abcdef'' ! (n mod 16)"

definition hex_escape :: "char \<Rightarrow> string" where
  "hex_escape c =
     [CHR 0x5C, CHR ''x'', hex_digit ((of_char c :: nat) div 16), hex_digit (of_char c :: nat)]"

text \<open>
  One character of \<open>repr\<close> of a \<open>str\<close>, for the quote \<open>q\<close> chosen: the quote and the
  backslash are escaped, tab, newline and carriage return have their letters, the other
  control characters and the unprintable characters of Latin-1 are written \<open>\xhh\<close>.
\<close>

definition repr_char :: "char \<Rightarrow> char \<Rightarrow> string" where
  "repr_char q c =
     (if c = q \<or> c = CHR 0x5C then [CHR 0x5C, c]
      else if c = CHR 0x09 then [CHR 0x5C, CHR ''t'']
      else if c = CHR 0x0A then [CHR 0x5C, CHR ''n'']
      else if c = CHR 0x0D then [CHR 0x5C, CHR ''r'']
      else if (of_char c :: nat) < 32 \<or> (of_char c :: nat) = 127 then hex_escape c
      else if (of_char c :: nat) < 127 then [c]
      else if (of_char c :: nat) \<le> 160 \<or> (of_char c :: nat) = 173 then hex_escape c
      else [c])"

text \<open>
  \<open>repr\<close> of a \<open>str\<close>: single quotes, unless the string holds a single quote and no
  double quote.
\<close>

definition py_repr_str :: "string \<Rightarrow> string" where
  "py_repr_str s =
     (let q = (if CHR 0x27 \<in> set s \<and> CHR 0x22 \<notin> set s then CHR 0x22 else CHR 0x27)
      in [q] @ concat (map (repr_char q) s) @ [q])"

text \<open>
  \<open>repr\<close> and \<open>str\<close> of any value. The rendering of a value that is not a \<open>str\<close>
  (where \<open>str\<close> and \<open>repr\<close> agree) belongs to the interpreter and is the parameter
  \<open>ro\<close>.
\<close>

fun py_repr :: "(json \<Rightarrow> string) \<Rightarrow> json \<Rightarrow> string" where
  "py_repr ro (JStr s) = py_repr_str s"
| "py_repr ro j = ro j"

fun py_str :: "(json \<Rightarrow> string) \<Rightarrow> json \<Rightarrow> string" where
  "py_str ro (JStr s) = s"
| "py_str ro j = ro j"

text \<open>
  \<open>str(exc)\<close> of an exception raised with one argument: \<open>str\<close> of the argument,
  except for \<open>KeyError\<close>, whose \<open>__str__\<close> is the \<open>repr\<close> of the key.
\<close>

fun exc_str :: "(json \<Rightarrow> string) \<Rightarrow> exn \<Rightarrow> string" where
  "exc_str ro (Exn c a) = (if c = KeyError then py_repr ro a else py_str ro a)"

text \<open>A rendering of the constants, enough to run the examples below.\<close>

fun sample_repr :: "json \<Rightarrow> string" where
  "sample_repr JNull = ''None''"
| "sample_repr (JBool b) = (if b then ''True'' else ''False'')"
| "sample_repr j = ''...''"

section \<open>The HTTP boundary (webrtc\_relay.py)\<close>

record response =
  status_code :: nat
  content :: "(string \<times> json) list"

text \<open>
  The handlers, one per decorated function of the source. Each builds
  \<open>JSONResponse(status_code, {"detail": str(exc), "exception_type": tag})\<close>.
\<close>

definition tagged_response :: "nat \<Rightarrow> string \<Rightarrow> string \<Rightarrow> response" where
  "tagged_response code detail tag =
     \<lparr>status_code = code,
      content = [(''detail'', JStr detail), (''exception_type'', JStr tag)]\<rparr>"

definition app_state_exception_handler :: "(json \<Rightarrow> string) \<Rightarrow> exn \<Rightarrow> response" where
  "app_state_exception_handler ro exc = tagged_response 409 (exc_str ro exc) ''state_exception''"

definition app_value_error_handler :: "(json \<Rightarrow> string) \<Rightarrow> exn \<Rightarrow> response" where
  "app_value_error_handler ro exc = tagged_response 422 (exc_str ro exc) ''value_error''"

definition app_key_error_handler :: "(json \<Rightarrow> string) \<Rightarrow> exn \<Rightarrow> response" where
  "app_key_error_handler ro exc = tagged_response 422 (exc_str ro exc) ''key_error''"

definition app_index_error_handler :: "(json \<Rightarrow> string) \<Rightarrow> exn \<Rightarrow> response" where
  "app_index_error_handler ro exc = tagged_response 422 (exc_str ro exc) ''index_error''"

definition app_runtime_error_handler :: "(json \<Rightarrow> string) \<Rightarrow> exn \<Rightarrow> response" where
  "app_runtime_error_handler ro exc = tagged_response 500 (exc_str ro exc) ''runtime_error''"

definition app_timeout_error_handler :: "(json \<Rightarrow> string) \<Rightarrow> exn \<Rightarrow> response" where
  "app_timeout_error_handler ro exc = tagged_response 504 (exc_str ro exc) ''timeout_error''"

definition app_asyncio_timeout_error_handler :: "(json \<Rightarrow> string) \<Rightarrow> exn \<Rightarrow> response" where
  "app_asyncio_timeout_error_handler ro exc =
     tagged_response 504 (exc_str ro exc) ''asyncio_timeout_error''"

definition app_unhandled_error_handler :: "(json \<Rightarrow> string) \<Rightarrow> exn \<Rightarrow> response" where
  "app_unhandled_error_handler ro exc =
     tagged_response 500 (exc_str ro exc) (class_name (exn_cls exc))"

text \<open>
  The class the name \<open>asyncio.TimeoutError\<close> denotes: since Python 3.11 it is the
  builtin \<open>TimeoutError\<close> itself (\<open>alias\<close>), before that a class of its own.
\<close>

definition asyncio_TimeoutError :: "bool \<Rightarrow> exn_class" where
  "asyncio_TimeoutError alias = (if alias then TimeoutError else AsyncioTimeoutError)"

text \<open>
  \<open>app.exception_handler(cls)\<close> stores the handler in a dictionary under the class, in
  the order of the source; a later registration under the same class replaces the
  earlier one.
\<close>

definition registrations ::
  "bool \<Rightarrow> (json \<Rightarrow> string) \<Rightarrow> (exn_class \<times> (exn \<Rightarrow> response)) list" where
  "registrations alias ro =
     [(StateException, app_state_exception_handler ro),
      (ValueError, app_value_error_handler ro),
      (KeyError, app_key_error_handler ro),
      (IndexError, app_index_error_handler ro),
      (RuntimeError, app_runtime_error_handler ro),
      (TimeoutError, app_timeout_error_handler ro),
      (asyncio_TimeoutError alias, app_asyncio_timeout_error_handler ro),
      (Exception, app_unhandled_error_handler ro)]"

definition exception_handlers ::
  "bool \<Rightarrow> (json \<Rightarrow> string) \<Rightarrow> exn_class \<rightharpoonup> (exn \<Rightarrow> response)" where
  "exception_handlers alias ro = map_of (rev (registrations alias ro))"

text \<open>
  The classes of the method resolution order that can carry a handler: the class
  itself, then \<open>Exception\<close> (no base in between is registered).
\<close>

definition mro :: "exn_class \<Rightarrow> exn_class list" where
  "mro c = (if c = Exception then [Exception] else [c, Exception])"

fun lookup_exception_handler ::
  "(exn_class \<rightharpoonup> (exn \<Rightarrow> response)) \<Rightarrow> exn_class list \<Rightarrow> (exn \<Rightarrow> response) option" where
  "lookup_exception_handler hs [] = None"
| "lookup_exception_handler hs (c # cs) =
     (case hs c of Some h \<Rightarrow> Some h | None \<Rightarrow> lookup_exception_handler hs cs)"

text \<open>
  The response to an exception that leaves a request handler. FastAPI answers its own
  \<open>HTTPException\<close> with the exception's status code and \<open>{"detail": detail}\<close>; every
  other exception goes to the handler of the nearest registered class.
\<close>

definition http_response :: "bool \<Rightarrow> (json \<Rightarrow> string) \<Rightarrow> exn \<Rightarrow> response" where
  "http_response alias ro exc =
     (case exn_cls exc of
        HTTPException s \<Rightarrow> \<lparr>status_code = s, content = [(''detail'', exn_arg exc)]\<rparr>
      | c \<Rightarrow>
          (case lookup_exception_handler (exception_handlers alias ro) (mro c) of
             Some h \<Rightarrow> h exc
           | None \<Rightarrow> app_unhandled_error_handler ro exc))"

section \<open>Rebuilding the error on the client (webrtc\_relay\_exceptions.py)\<close>

text \<open>
  The function has no return statement: every path raises. The result type keeps a
  place for a normal return so that this can be stated.
\<close>

definition recreate_and_raise_exception ::
  "(json \<Rightarrow> string) \<Rightarrow> (string \<times> json) list \<Rightarrow> exn + unit" where
  "recreate_and_raise_exception ro err_json =
     (case map_of err_json ''detail'' of
        None \<Rightarrow> Inl (Exn Exception (JStr ''detail and type unknown''))
      | Some detail \<Rightarrow>
          (case map_of err_json ''exception_type'' of
             None \<Rightarrow> Inl (Exn Exception (JStr (''type unknown. detail='' @ py_repr ro detail)))
           | Some exception_type \<Rightarrow>
               if exception_type = JStr ''runtime_error'' then Inl (Exn RuntimeError detail)
               else if exception_type = JStr ''value_error'' then Inl (Exn ValueError detail)
               else if exception_type = JStr ''index_error'' then Inl (Exn IndexError detail)
               else if exception_type = JStr ''key_error'' then Inl (Exn KeyError detail)
               else if exception_type = JStr ''state_exception'' then Inl (Exn StateException detail)
               else if exception_type = JStr ''timeout_error'' then Inl (Exn TimeoutError detail)
               else if exception_type = JStr ''asyncio_timeout_error'' then
                 Inl (Exn TimeoutError
                        (JStr (''asyncio.TimeoutError, detail='' @ py_repr ro detail)))
               else
                 Inl (Exn Exception
                        (JStr (''exception_type='' @ py_repr ro exception_type
                               @ '' : detail='' @ py_repr ro detail)))))"

text \<open>The error kinds of the taxonomy and the status class of each.\<close>

definition taxonomy :: "exn_class set" where
  "taxonomy = {StateException, ValueError, KeyError, IndexError, RuntimeError, TimeoutError}"

fun taxonomy_status :: "exn_class \<Rightarrow> nat" where
  "taxonomy_status StateException = 409"
| "taxonomy_status ValueError = 422"
| "taxonomy_status KeyError = 422"
| "taxonomy_status IndexError = 422"
| "taxonomy_status RuntimeError = 500"
| "taxonomy_status TimeoutError = 504"
| "taxonomy_status c = 500"

text \<open>
  The detail the rebuilt exception carries, for an error of class \<open>c\<close> raised with the
  string \<open>d\<close>: \<open>str(exc)\<close> of the original, which for \<open>KeyError\<close> is the \<open>repr\<close> of
  \<open>d\<close>; where \<open>asyncio.TimeoutError\<close> is the builtin class, a \<open>TimeoutError\<close> is
  answered by the handler registered last and comes back wrapped.
\<close>

definition carried_detail :: "bool \<Rightarrow> exn_class \<Rightarrow> string \<Rightarrow> string" where
  "carried_detail alias c d =
     (if c = KeyError then py_repr_str d
      else if c = TimeoutError \<and> alias then ''asyncio.TimeoutError, detail='' @ py_repr_str d
      else d)"

text \<open>The tags \<open>recreate_and_raise_exception\<close> knows.\<close>

definition known_tags :: "json set" where
  "known_tags = {JStr ''runtime_error'', JStr ''value_error'', JStr ''index_error'',
     JStr ''key_error'', JStr ''state_exception'', JStr ''timeout_error'',
     JStr ''asyncio_timeout_error''}"

section \<open>Raising and catching\<close>

text \<open>
  A computation that may raise is a value of \<open>exn + 'a\<close>, \<open>Inl\<close> the exception. Only
  subclasses of \<open>Exception\<close> are modelled: they are what \<open>except Exception\<close> catches.
\<close>

definition bindE :: "exn + 'a \<Rightarrow> ('a \<Rightarrow> exn + 'b) \<Rightarrow> exn + 'b" where
  "bindE m f = (case m of Inl e \<Rightarrow> Inl e | Inr v \<Rightarrow> f v)"

text \<open>\<open>try: body  except Exception as e: handler\<close>.\<close>

definition try_except :: "exn + 'a \<Rightarrow> (exn \<Rightarrow> exn + 'a) \<Rightarrow> exn + 'a" where
  "try_except body handler = (case body of Inl e \<Rightarrow> handler e | Inr v \<Rightarrow> Inr v)"

section \<open>Operations on decoded values\<close>

text \<open>\<open>obj[key]\<close> with a string key.\<close>

fun subscript :: "json \<Rightarrow> string \<Rightarrow> exn + json" where
  "subscript (JObj kvs) k =
     (case map_of kvs k of None \<Rightarrow> Inl (Exn KeyError (JStr k)) | Some v \<Rightarrow> Inr v)"
| "subscript (JArr xs) k =
     Inl (Exn TypeError (JStr ''list indices must be integers or slices, not str''))"
| "subscript (JStr s) k = Inl (Exn TypeError (JStr ''string indices must be integers''))"
| "subscript j k = Inl (Exn TypeError (JStr ''object is not subscriptable''))"

text \<open>\<open>obj.get(key, default)\<close>; of the values here only a \<open>dict\<close> has the method.\<close>

fun dict_get :: "json \<Rightarrow> string \<Rightarrow> json \<Rightarrow> exn + json" where
  "dict_get (JObj kvs) k d = (case map_of kvs k of None \<Rightarrow> Inr d | Some v \<Rightarrow> Inr v)"
| "dict_get j k d =
     Inl (Exn (OtherError ''AttributeError'') (JStr ''object has no attribute get''))"

text \<open>
  The items a \<open>for\<close> loop sees: the elements of a list, the characters of a string,
  the keys of a dictionary; the other values are not iterable.
\<close>

fun iter_items :: "json \<Rightarrow> exn + json list" where
  "iter_items (JArr xs) = Inr xs"
| "iter_items (JStr s) = Inr (map (\<lambda>c. JStr [c]) s)"
| "iter_items (JObj kvs) = Inr (map (\<lambda>kv. JStr (fst kv)) kvs)"
| "iter_items j = Inl (Exn TypeError (JStr ''object is not iterable''))"

text \<open>\<open>list(x)\<close>.\<close>

definition py_list :: "json \<Rightarrow> exn + json" where
  "py_list x = bindE (iter_items x) (\<lambda>xs. Inr (JArr xs))"

text \<open>\<open>isinstance(v, (int, float))\<close>; \<open>bool\<close> is a subclass of \<open>int\<close>.\<close>

fun isinstance_int_float :: "json \<Rightarrow> bool" where
  "isinstance_int_float (JBool b) = True"
| "isinstance_int_float (JInt n) = True"
| "isinstance_int_float (JFloat f) = True"
| "isinstance_int_float j = False"

text \<open>
  \<open>math.isfinite\<close> converts an \<open>int\<close> to a double before it tests it; the conversion
  raises \<open>OverflowError\<close> when the nearest double would not be finite.
\<close>

definition int_too_large :: "int \<Rightarrow> bool" where
  "int_too_large n = (2 ^ 1024 - 2 ^ 970 \<le> \<bar>n\<bar>)"

fun math_isfinite :: "json \<Rightarrow> exn + bool" where
  "math_isfinite (JBool b) = Inr True"
| "math_isfinite (JInt n) =
     (if int_too_large n
      then Inl (Exn OverflowError (JStr ''int too large to convert to float''))
      else Inr True)"
| "math_isfinite (JFloat (Finite r)) = Inr True"
| "math_isfinite (JFloat f) = Inr False"
| "math_isfinite j = Inl (Exn TypeError (JStr ''must be real number''))"

text \<open>\<open>isinstance(v, (int, float)) and math.isfinite(v)\<close>.\<close>

definition is_finite_number :: "json \<Rightarrow> exn + bool" where
  "is_finite_number v = (if isinstance_int_float v then math_isfinite v else Inr False)"

text \<open>
  \<open>all(isinstance(x, (int, float)) and math.isfinite(x) for x in xs)\<close>: the generator
  stops at the first false item, and an exception of an item leaves the \<open>all\<close>.
\<close>

fun all_finite_numbers :: "json list \<Rightarrow> exn + bool" where
  "all_finite_numbers [] = Inr True"
| "all_finite_numbers (x # xs) =
     (case is_finite_number x of
        Inl e \<Rightarrow> Inl e
      | Inr ok \<Rightarrow> if ok then all_finite_numbers xs else Inr False)"

text \<open>
  \<open>float(value)\<close> of a number; \<open>rnd\<close> is the rounding of an \<open>int\<close> to the nearest
  double. The caller has checked \<open>isinstance\<close>, so the last case is not reached.
\<close>

fun py_float :: "(int \<Rightarrow> real) \<Rightarrow> json \<Rightarrow> exn + pyfloat" where
  "py_float rnd (JBool b) = Inr (Finite (if b then 1 else 0))"
| "py_float rnd (JInt n) =
     (if int_too_large n
      then Inl (Exn OverflowError (JStr ''int too large to convert to float''))
      else Inr (Finite (rnd n)))"
| "py_float rnd (JFloat f) = Inr f"
| "py_float rnd j =
     Inl (Exn TypeError (JStr ''float() argument must be a string or a real number''))"

section \<open>Telemetry records\<close>

text \<open>
  Modelled from the spec: the dataclasses of \<open>domain/entities/robot_data.py\<close>, which the
  parsers build; a field holds the value it is given.
\<close>

record OdometryData =
  position :: json
  orientation :: json

record RobotState =
  mode :: json
  progress :: json
  gait_type :: json
  state_position :: json
  body_height :: pyfloat
  velocity :: json
  range_obstacle :: json
  foot_force :: json
  foot_position_body :: json
  foot_speed_body :: json

record IMUData =
  quaternion :: json
  accelerometer :: json
  gyroscope :: json
  rpy :: json
  temperature :: json

record JointData =
  motor_state :: json

record LidarData =
  positions :: json
  uvs :: json
  resolution :: json
  origin :: json
  stamp :: json
  width :: json
  src_size :: json
  compressed_data :: json

text \<open>What a data channel delivers: \<open>str\<close>, \<open>bytes\<close>, or a value of another type.\<close>

datatype message = Str string | Bytes bytes | NotData json

record RobotData =
  robot_id :: string
  timestamp :: pyfloat
  lidar_data :: "LidarData option"
  odometry_data :: "OdometryData option"
  robot_state :: "RobotState option"
  imu_data :: "IMUData option"
  joint_data :: "JointData option"
  raw_message :: "message option"

text \<open>\<open>RobotData(robot_id=rid, timestamp=0.0)\<close>.\<close>

definition new_RobotData :: "string \<Rightarrow> RobotData" where
  "new_RobotData rid =
     \<lparr>robot_id = rid, timestamp = Finite 0, lidar_data = None, odometry_data = None,
      robot_state = None, imu_data = None, joint_data = None, raw_message = None\<rparr>"

section \<open>The parsers (go2\_message\_parsers.py)\<close>

text \<open>
  \<open>json.loads\<close> belongs to the standard library: \<open>loads raw\<close> is its result, \<open>None\<close>
  when it raises. Both \<open>except\<close> clauses raise the same \<open>ValueError\<close>.
\<close>

definition parse_datachannel_message ::
  "(string \<Rightarrow> json option) \<Rightarrow> string \<Rightarrow> exn + json" where
  "parse_datachannel_message loads raw =
     (case loads raw of
        Some obj \<Rightarrow> Inr obj
      | None \<Rightarrow> Inl (Exn ValueError (JStr ''Failed to decode JSON message'')))"

definition validated_float_list :: "(json \<Rightarrow> string) \<Rightarrow> json \<Rightarrow> exn + json" where
  "validated_float_list ro data =
     bindE (iter_items data) (\<lambda>xs.
     bindE (all_finite_numbers xs) (\<lambda>ok.
       if ok then Inr data
       else Inl (Exn ValueError
                  (JStr (''list was not all floats or finite. data='' @ py_repr ro data)))))"

definition validated_float ::
  "(int \<Rightarrow> real) \<Rightarrow> (json \<Rightarrow> string) \<Rightarrow> json \<Rightarrow> exn + pyfloat" where
  "validated_float rnd ro v =
     bindE (is_finite_number v) (\<lambda>ok.
       if ok then py_float rnd v
       else Inl (Exn ValueError
                  (JStr (''value isn'' @ [CHR 0x27] @ ''t int or float, value=''
                         @ py_repr ro v))))"

definition parse_odometry_data :: "json \<Rightarrow> exn + OdometryData option" where
  "parse_odometry_data data =
     try_except
       (bindE (subscript data ''pose'') (\<lambda>pose_data.
        bindE (subscript pose_data ''position'') (\<lambda>pos.
        bindE (subscript pose_data ''orientation'') (\<lambda>ori.
        bindE (subscript pos ''x'') (\<lambda>px.
        bindE (subscript pos ''y'') (\<lambda>py.
        bindE (subscript pos ''z'') (\<lambda>pz.
        bindE (subscript ori ''x'') (\<lambda>ox.
        bindE (subscript ori ''y'') (\<lambda>oy.
        bindE (subscript ori ''z'') (\<lambda>oz.
        bindE (subscript ori ''w'') (\<lambda>ow.
        bindE (all_finite_numbers [px, py, pz, ox, oy, oz, ow]) (\<lambda>ok.
          if \<not> ok then Inl (Exn ValueError (JStr ''Invalid odometry data - skipping''))
          else Inr (Some \<lparr>position = pos, orientation = ori\<rparr>)))))))))))))
       (\<lambda>e. Inr None)"

text \<open>The two constructor calls of \<open>parse_sport_mode_state\<close>, arguments left to right.\<close>

definition build_robot_state ::
  "(int \<Rightarrow> real) \<Rightarrow> (json \<Rightarrow> string) \<Rightarrow> json \<Rightarrow> exn + RobotState" where
  "build_robot_state rnd ro data =
     bindE (subscript data ''mode'') (\<lambda>m.
     bindE (subscript data ''progress'') (\<lambda>p.
     bindE (subscript data ''gait_type'') (\<lambda>g.
     bindE (bindE (subscript data ''position'') (validated_float_list ro)) (\<lambda>pos.
     bindE (bindE (subscript data ''body_height'') (validated_float rnd ro)) (\<lambda>bh.
     bindE (subscript data ''velocity'') (\<lambda>v.
     bindE (bindE (subscript data ''range_obstacle'') (validated_float_list ro)) (\<lambda>rg.
     bindE (subscript data ''foot_force'') (\<lambda>ff.
     bindE (bindE (subscript data ''foot_position_body'') (validated_float_list ro)) (\<lambda>fp.
     bindE (bindE (subscript data ''foot_speed_body'') (validated_float_list ro)) (\<lambda>fs.
       Inr \<lparr>mode = m, progress = p, gait_type = g, state_position = pos, body_height = bh,
            velocity = v, range_obstacle = rg, foot_force = ff,
            foot_position_body = fp, foot_speed_body = fs\<rparr>))))))))))"

definition build_imu_data :: "(json \<Rightarrow> string) \<Rightarrow> json \<Rightarrow> exn + IMUData" where
  "build_imu_data ro imu_dict =
     bindE (bindE (subscript imu_dict ''quaternion'') (validated_float_list ro)) (\<lambda>q.
     bindE (bindE (subscript imu_dict ''accelerometer'') (validated_float_list ro)) (\<lambda>a.
     bindE (bindE (subscript imu_dict ''gyroscope'') (validated_float_list ro)) (\<lambda>g.
     bindE (bindE (subscript imu_dict ''rpy'') (validated_float_list ro)) (\<lambda>r.
     bindE (subscript imu_dict ''temperature'') (\<lambda>t.
       Inr \<lparr>quaternion = q, accelerometer = a, gyroscope = g, rpy = r,
            temperature = t\<rparr>)))))"

definition parse_sport_mode_state ::
  "(int \<Rightarrow> real) \<Rightarrow> (json \<Rightarrow> string) \<Rightarrow> json \<Rightarrow> exn + (RobotState \<times> IMUData) option" where
  "parse_sport_mode_state rnd ro data =
     try_except
       (bindE (build_robot_state rnd ro data) (\<lambda>rs.
        bindE (subscript data ''imu_state'') (\<lambda>imu_dict.
        bindE (build_imu_data ro imu_dict) (\<lambda>imu.
          Inr (Some (rs, imu))))))
       (\<lambda>e. Inr None)"

definition parse_low_state :: "json \<Rightarrow> exn + JointData option" where
  "parse_low_state low_state_data =
     try_except
       (bindE (subscript low_state_data ''motor_state'') (\<lambda>ms.
          Inr (Some \<lparr>motor_state = ms\<rparr>)))
       (\<lambda>e. Inr None)"

definition parse_lidar_data :: "json \<Rightarrow> exn + LidarData option" where
  "parse_lidar_data msg =
     try_except
       (bindE (subscript msg ''decoded_data'') (\<lambda>decoded_data.
          if decoded_data = JNull then Inr None
          else
            bindE (subscript msg ''data'') (\<lambda>data.
            bindE (subscript decoded_data ''positions'') (\<lambda>ps.
            bindE (dict_get decoded_data ''uvs'' JNull) (\<lambda>uv.
            bindE (dict_get data ''resolution'' (JFloat (Finite 0))) (\<lambda>res.
            bindE (bindE (dict_get data ''origin''
                     (JArr [JFloat (Finite 0), JFloat (Finite 0), JFloat (Finite 0)])) py_list)
              (\<lambda>org.
            bindE (dict_get data ''stamp'' (JFloat (Finite 0))) (\<lambda>st.
            bindE (dict_get data ''width'' JNull) (\<lambda>w.
            bindE (dict_get data ''src_size'' JNull) (\<lambda>ss.
            bindE (dict_get msg ''compressed_data'' JNull) (\<lambda>cd.
              Inr (Some \<lparr>positions = ps, uvs = uv, resolution = res, origin = org,
                         stamp = st, width = w, src_size = ss,
                         compressed_data = cd\<rparr>))))))))))))
       (\<lambda>e. Inr None)"

text \<open>
  The topic names of \<open>RTC_TOPIC\<close> (\<open>domain/constants/webrtc_topics.py\<close>) are a
  parameter.
\<close>

record rtc_topic =
  ULIDAR_ARRAY :: string
  ROBOTODOM :: string
  LF_SPORT_MOD_STATE :: string
  LOW_STATE :: string

definition process_webrtc_message ::
  "rtc_topic \<Rightarrow> (int \<Rightarrow> real) \<Rightarrow> (json \<Rightarrow> string) \<Rightarrow> json \<Rightarrow> string
     \<Rightarrow> exn + RobotData option" where
  "process_webrtc_message tp rnd ro msg rid =
     bindE (subscript msg ''type'') (\<lambda>ty.
       if ty \<noteq> JStr ''msg'' then Inr None
       else
         bindE (subscript msg ''topic'') (\<lambda>topic.
           if topic = JStr (ULIDAR_ARRAY tp) then
             bindE (parse_lidar_data msg) (\<lambda>r.
               Inr (Some ((new_RobotData rid)\<lparr>lidar_data := r\<rparr>)))
           else if topic = JStr (ROBOTODOM tp) then
             bindE (subscript msg ''data'') (\<lambda>d.
             bindE (parse_odometry_data d) (\<lambda>r.
               Inr (Some ((new_RobotData rid)\<lparr>odometry_data := r\<rparr>))))
           else if topic = JStr (LF_SPORT_MOD_STATE tp) then
             bindE (subscript msg ''data'') (\<lambda>d.
             bindE (parse_sport_mode_state rnd ro d) (\<lambda>ret.
               case ret of
                 None \<Rightarrow> Inr (Some (new_RobotData rid))
               | Some (rs, imu) \<Rightarrow>
                   Inr (Some ((new_RobotData rid)
                          \<lparr>robot_state := Some rs, imu_data := Some imu\<rparr>))))
           else if topic = JStr (LOW_STATE tp) then
             bindE (subscript msg ''data'') (\<lambda>d.
             bindE (parse_low_state d) (\<lambda>r.
               Inr (Some ((new_RobotData rid)\<lparr>joint_data := r\<rparr>))))
           else Inr None))"

section \<open>Data channels\<close>

text \<open>
  An \<open>RTCDataChannel\<close> of aiortc, as far as the code uses it: its \<open>readyState\<close> and
  what has been sent on it, oldest first. \<open>send\<close> raises \<open>InvalidStateError\<close> unless
  the channel is open, and \<open>ValueError\<close> for data that is neither \<open>str\<close> nor \<open>bytes\<close>.
\<close>

record channel =
  label :: string
  readyState :: string
  sent :: "message list"

definition channel_send :: "channel \<Rightarrow> message \<Rightarrow> exn + channel" where
  "channel_send ch m =
     (if readyState ch \<noteq> ''open''
      then Inl (Exn InvalidStateError (JStr ''Not in an open state''))
      else (case m of
              NotData j \<Rightarrow> Inl (Exn ValueError (JStr ''Cannot send unsupported data type''))
            | _ \<Rightarrow> Inr (ch\<lparr>sent := sent ch @ [m]\<rparr>)))"

text \<open>\<open>if ch.readyState != "open": ch._setReadyState("open")\<close>.\<close>

definition force_open :: "channel \<Rightarrow> channel" where
  "force_open ch = (if readyState ch \<noteq> ''open'' then ch\<lparr>readyState := ''open''\<rparr> else ch)"

section \<open>The connection to the robot (go2\_connection.py)\<close>

text \<open>
  What the functions below take from outside the repository's sources: \<open>json.loads\<close>
  (\<open>None\<close> when it raises) and \<open>json.dumps\<close> of the standard library,
  \<open>ValidationCrypto.encrypt_key\<close> and \<open>deal_array_buffer\<close> (whose result \<open>None\<close> is
  \<open>JNull\<close>), the rounding of an \<open>int\<close> to a double, the \<open>repr\<close> of the values that are
  not strings, and the topic names.
\<close>

record env =
  json_loads :: "string \<Rightarrow> json option"
  json_dumps :: "json \<Rightarrow> string"
  encrypt_key :: "json \<Rightarrow> exn + json"
  deal_array_buffer :: "bytes \<Rightarrow> bool \<Rightarrow> exn + json"
  int_to_double :: "int \<Rightarrow> real"
  repr_other :: "json \<Rightarrow> string"
  RTC_TOPIC :: rtc_topic

text \<open>
  The fields of a \<open>Go2Connection\<close> the handlers read and write. The callbacks are
  closures of the caller: the connection records whether one is registered
  (\<open>has_on_validated\<close>, \<open>has_on_message\<close>), and a handler returns, with the connection,
  the calls it has made, in order.
\<close>

record Go2Connection =
  robot_ip :: string
  robot_num :: string
  token :: string
  is_validated :: bool
  has_on_validated :: bool
  has_on_message :: bool
  decode_lidar :: bool
  decode_message :: bool
  data_channel :: channel

datatype callback = OnValidated string | OnMessage RobotData

text \<open>
  \<open>publish\<close>: the payload is serialized and sent; an exception is logged. Nothing is
  written before \<open>send\<close> returns, so the connection is unchanged when it raises.
\<close>

definition publish :: "env \<Rightarrow> Go2Connection \<Rightarrow> string \<Rightarrow> json \<Rightarrow> string \<Rightarrow> exn + Go2Connection" where
  "publish E c topic data msg_type =
     try_except
       (bindE (channel_send (data_channel c)
                 (Str (json_dumps E (JObj [(''type'', JStr msg_type), (''topic'', JStr topic),
                                            (''data'', data)]))))
          (\<lambda>ch. Inr (c\<lparr>data_channel := ch\<rparr>)))
       (\<lambda>e. Inr c)"

definition publish_json_str :: "Go2Connection \<Rightarrow> string \<Rightarrow> exn + Go2Connection" where
  "publish_json_str c json_str =
     try_except
       (if readyState (data_channel c) \<noteq> ''open'' then Inr c
        else bindE (channel_send (data_channel c) (Str json_str))
               (\<lambda>ch. Inr (c\<lparr>data_channel := ch\<rparr>)))
       (\<lambda>e. Inr c)"

text \<open>
  \<open>validate_robot_conn\<close>. The call of the hook is the last statement of its branch, so
  an exception of the hook, which the \<open>except\<close> logs, changes nothing of the result;
  \<open>encrypt_key\<close> raises before anything is written.
\<close>

definition validate_robot_conn ::
  "env \<Rightarrow> Go2Connection \<Rightarrow> json \<Rightarrow> exn + Go2Connection \<times> callback list" where
  "validate_robot_conn E c message =
     try_except
       (if message = JStr ''Validation Ok.'' then
          bindE (publish E c '''' (JStr ''on'') ''vid'') (\<lambda>c1.
            if has_on_validated c1
            then Inr (c1\<lparr>is_validated := True\<rparr>, [OnValidated (robot_num c1)])
            else Inr (c1\<lparr>is_validated := True\<rparr>, []))
        else
          bindE (encrypt_key E message) (\<lambda>encrypted_key.
          bindE (publish E c '''' encrypted_key ''validation'') (\<lambda>c1.
            Inr (c1, []))))
       (\<lambda>e. Inr (c, []))"

text \<open>
  \<open>on_data_channel_message\<close>, in three parts. First the message is parsed if the
  connection is not validated and the message is a \<open>str\<close> (\<open>raw_message_obj\<close>).
\<close>

fun parse_if_unvalidated :: "env \<Rightarrow> Go2Connection \<Rightarrow> message \<Rightarrow> exn + json option" where
  "parse_if_unvalidated E c (Str s) =
     (if \<not> is_validated c
      then bindE (parse_datachannel_message (json_loads E) s) (\<lambda>obj. Inr (Some obj))
      else Inr None)"
| "parse_if_unvalidated E c m = Inr None"

text \<open>The decoding of a message, when \<open>decode_message\<close> is set.\<close>

fun decode_robot_data ::
  "env \<Rightarrow> Go2Connection \<Rightarrow> json option \<Rightarrow> message \<Rightarrow> exn + RobotData option" where
  "decode_robot_data E c raw_message_obj (Str s) =
     bindE (case raw_message_obj of
              None \<Rightarrow> parse_datachannel_message (json_loads E) s
            | Some obj \<Rightarrow> Inr obj)
       (\<lambda>obj. process_webrtc_message (RTC_TOPIC E) (int_to_double E) (repr_other E)
                 obj (robot_num c))"
| "decode_robot_data E c raw_message_obj (Bytes b) =
     bindE (deal_array_buffer E b (decode_lidar c)) (\<lambda>lidar_frame.
       if lidar_frame = JNull then Inr None
       else process_webrtc_message (RTC_TOPIC E) (int_to_double E) (repr_other E)
              lidar_frame (robot_num c))"
| "decode_robot_data E c raw_message_obj (NotData j) = Inr None"

text \<open>What follows the validation block: the message goes to \<open>on_message\<close>.\<close>

definition hand_to_on_message ::
  "env \<Rightarrow> Go2Connection \<Rightarrow> json option \<Rightarrow> message \<Rightarrow> exn + Go2Connection \<times> callback list" where
  "hand_to_on_message E c raw_message_obj message =
     (if \<not> has_on_message c then Inr (c, [])
      else if \<not> decode_message c then
        Inr (c, [OnMessage ((new_RobotData (robot_num c))\<lparr>raw_message := Some message\<rparr>)])
      else
        bindE (decode_robot_data E c raw_message_obj message) (\<lambda>robot_data.
          case robot_data of
            None \<Rightarrow> Inr (c, [])
          | Some rd \<Rightarrow> Inr (c, [OnMessage (rd\<lparr>raw_message := Some message\<rparr>)])))"

text \<open>
  The handler. The channel is forced open first; whatever raises afterwards raises
  before anything else of the connection is written, and is logged by the \<open>except\<close>.
\<close>

definition on_data_channel_message ::
  "env \<Rightarrow> Go2Connection \<Rightarrow> message \<Rightarrow> exn + Go2Connection \<times> callback list" where
  "on_data_channel_message E c0 message =
     (let c = c0\<lparr>data_channel := force_open (data_channel c0)\<rparr> in
      try_except
        (bindE (parse_if_unvalidated E c message) (\<lambda>raw_message_obj.
           case raw_message_obj of
             None \<Rightarrow> hand_to_on_message E c None message
           | Some obj \<Rightarrow>
               bindE (subscript obj ''type'') (\<lambda>ty.
                 if ty = JStr ''validation''
                 then bindE (subscript obj ''data'') (validate_robot_conn E c)
                 else hand_to_on_message E c (Some obj) message)))
        (\<lambda>e. Inr (c, [])))"

text \<open>
  A session: the messages of the robot handled one after the other, the calls of the
  hooks collected.
\<close>

fun session ::
  "env \<Rightarrow> Go2Connection \<Rightarrow> message list \<Rightarrow> exn + Go2Connection \<times> callback list" where
  "session E c [] = Inr (c, [])"
| "session E c (m # ms) =
     bindE (on_data_channel_message E c m) (\<lambda>(c1, calls1).
     bindE (session E c1 ms) (\<lambda>(c2, calls2). Inr (c2, calls1 @ calls2)))"

text \<open>
  \<open>Go2Connection.connect\<close>: the steps of the handshake are calls of aiortc, of the
  HTTP client and of the crypto helpers; \<open>hs\<close> gives, for each of the three phases,
  the exception it raises, if any. The errors of the HTTP client and of the crypto
  helpers are wrapped by the phase, every other exception by the outer \<open>except\<close>.
\<close>

datatype connect_phase = CreateOffer | GetPublicKey | SendEncryptedSdp

definition phase :: "(connect_phase \<Rightarrow> exn option) \<Rightarrow> connect_phase \<Rightarrow> exn + unit" where
  "phase hs p = (case hs p of None \<Rightarrow> Inr () | Some e \<Rightarrow> Inl e)"

definition transport_or_crypto_error :: "exn \<Rightarrow> bool" where
  "transport_or_crypto_error e =
     (exn_cls e = OtherError ''WebRTCHttpError'' \<or> exn_cls e = OtherError ''EncryptionError'')"

definition Go2Connection_connect ::
  "(json \<Rightarrow> string) \<Rightarrow> (connect_phase \<Rightarrow> exn option) \<Rightarrow> Go2Connection \<Rightarrow> exn + unit" where
  "Go2Connection_connect ro hs c =
     try_except
       (bindE (phase hs CreateOffer) (\<lambda>_.
        bindE (try_except (phase hs GetPublicKey)
                 (\<lambda>e. if transport_or_crypto_error e
                       then Inl (Exn Go2ConnectionError
                              (JStr (''Failed to get robot public key: '' @ exc_str ro e)))
                       else Inl e)) (\<lambda>_.
        try_except (phase hs SendEncryptedSdp)
          (\<lambda>e. if transport_or_crypto_error e
                then Inl (Exn Go2ConnectionError
                       (JStr (''Failed to complete encrypted handshake: '' @ exc_str ro e)))
                else Inl e))))
       (\<lambda>e. if exn_cls e = Go2ConnectionError then Inl e
             else Inl (Exn Go2ConnectionError
                    (JStr (''Unexpected error during connection: '' @ exc_str ro e))))"

section \<open>Programs that write a state and call out\<close>

text \<open>
  The endpoints and the teardown write a state between calls that may raise. A
  program maps the state before to the outcome and the state after; the state is a
  pair of the object the code writes and the calls made so far on objects of other
  libraries, oldest first.
\<close>

type_synonym ('s, 'a) prog = "'s \<Rightarrow> (exn + 'a) \<times> 's"

definition ret :: "'a \<Rightarrow> ('s, 'a) prog" where
  "ret v = (\<lambda>s. (Inr v, s))"

definition raise :: "exn \<Rightarrow> ('s, 'a) prog" where
  "raise e = (\<lambda>s. (Inl e, s))"

definition lift :: "exn + 'a \<Rightarrow> ('s, 'a) prog" where
  "lift r = (\<lambda>s. (r, s))"

definition and_then :: "('s, 'a) prog \<Rightarrow> ('a \<Rightarrow> ('s, 'b) prog) \<Rightarrow> ('s, 'b) prog" where
  "and_then m f = (\<lambda>s. case m s of (Inl e, s1) \<Rightarrow> (Inl e, s1) | (Inr v, s1) \<Rightarrow> f v s1)"

text \<open>\<open>try: m  except Exception as e: h\<close>.\<close>

definition attempt :: "('s, 'a) prog \<Rightarrow> (exn \<Rightarrow> ('s, 'a) prog) \<Rightarrow> ('s, 'a) prog" where
  "attempt m h = (\<lambda>s. case m s of (Inl e, s1) \<Rightarrow> h e s1 | (Inr v, s1) \<Rightarrow> (Inr v, s1))"

text \<open>\<open>try: m  finally: fin\<close>: \<open>fin\<close> runs in every case; its exception wins.\<close>

definition try_finally :: "('s, 'a) prog \<Rightarrow> ('s, unit) prog \<Rightarrow> ('s, 'a) prog" where
  "try_finally m fin =
     (\<lambda>s. case m s of (r, s1) \<Rightarrow>
             (case fin s1 of (Inl e, s2) \<Rightarrow> (Inl e, s2) | (Inr u, s2) \<Rightarrow> (r, s2)))"

definition gets :: "('s \<Rightarrow> 'a) \<Rightarrow> ('s \<times> 'c list, 'a) prog" where
  "gets f = (\<lambda>(s, calls). (Inr (f s), (s, calls)))"

definition modify :: "('s \<Rightarrow> 's) \<Rightarrow> ('s \<times> 'c list, unit) prog" where
  "modify f = (\<lambda>(s, calls). (Inr (), (f s, calls)))"

text \<open>
  A call on an object of another library: it is recorded, and raises what \<open>outcome\<close>
  says, if anything.
\<close>

definition call :: "('c \<Rightarrow> exn option) \<Rightarrow> 'c \<Rightarrow> ('s \<times> 'c list, unit) prog" where
  "call outcome c =
     (\<lambda>(s, calls). (case outcome c of None \<Rightarrow> Inr () | Some e \<Rightarrow> Inl e, (s, calls @ [c])))"

section \<open>Teardown of the connection (go2\_connection.py)\<close>

datatype resource = PeerConnection | DataChannel | HttpClient

text \<open>\<open>Go2Connection.disconnect\<close>: three \<open>try\<close> blocks, one after the other.\<close>

definition Go2Connection_disconnect ::
  "(resource \<Rightarrow> exn option) \<Rightarrow> (Go2Connection \<times> resource list, unit) prog" where
  "Go2Connection_disconnect outcome =
     and_then (attempt (call outcome PeerConnection) (\<lambda>e. ret ())) (\<lambda>_.
     and_then (attempt (call outcome DataChannel) (\<lambda>e. ret ())) (\<lambda>_.
     attempt (call outcome HttpClient) (\<lambda>e. ret ())))"

section \<open>The state of the relay (webrtc\_relay\_app\_state.py)\<close>

text \<open>
  Peer connections, tracks and the media relay are objects of aiortc: the state holds
  a handle of each.
\<close>

record WebRTCRelayAppState =
  media_relay :: nat
  go2 :: "Go2Connection option"
  relay_rtc_peer_connection :: "nat option"
  relay_rtc_data_channel :: "channel option"
  go2_video_track :: "nat option"

text \<open>The calls of the relay on aiortc and on the connection to the robot.\<close>

datatype relay_call =
    ClosePeerConnection nat
  | CloseDataChannel channel
  | CreateGo2Connection string
  | CreatePeerConnection
  | RegisterDatachannelHook
  | AddTrack nat
  | SetRemoteDescription
  | CreateAnswer
  | SetLocalDescription
  | ReadLocalDescription

type_synonym 'a relay_prog = "(WebRTCRelayAppState \<times> relay_call list, 'a) prog"

definition close_rtc_relay_connection :: "(relay_call \<Rightarrow> exn option) \<Rightarrow> unit relay_prog" where
  "close_rtc_relay_connection outcome =
     and_then (gets relay_rtc_peer_connection) (\<lambda>pc.
     and_then (case pc of
                 None \<Rightarrow> ret ()
               | Some h \<Rightarrow>
                   try_finally
                     (attempt (call outcome (ClosePeerConnection h)) (\<lambda>e. ret ()))
                     (modify (\<lambda>s. s\<lparr>relay_rtc_peer_connection := None\<rparr>))) (\<lambda>_.
     and_then (gets relay_rtc_data_channel) (\<lambda>dc.
       case dc of
         None \<Rightarrow> ret ()
       | Some ch \<Rightarrow>
           try_finally
             (attempt (call outcome (CloseDataChannel ch)) (\<lambda>e. ret ()))
             (modify (\<lambda>s. s\<lparr>relay_rtc_data_channel := None\<rparr>)))))"

section \<open>The endpoints of the robot side (webrtc\_relay\_endpoint\_go2.py)\<close>

text \<open>\<open>str\<close> of an \<open>int\<close>.\<close>

fun str_nat :: "nat \<Rightarrow> string" where
  "str_nat n =
     (if n < 10 then [''0123456789'' ! n]
      else str_nat (n div 10) @ [''0123456789'' ! (n mod 10)])"

definition str_int :: "int \<Rightarrow> string" where
  "str_int i = (if i < 0 then CHR ''-'' # str_nat (nat (- i)) else str_nat (nat i))"

record ConnectArgs =
  arg_robot_ip :: string
  arg_robot_num :: int
  arg_token :: string
  arg_topics_to_subscribe_to :: "string list"

text \<open>
  The connection \<open>connect\<close> constructs: all hooks registered, nothing decoded, the data
  channel created and not yet open.
\<close>

definition new_Go2Connection :: "ConnectArgs \<Rightarrow> Go2Connection" where
  "new_Go2Connection args =
     \<lparr>robot_ip = arg_robot_ip args, robot_num = str_int (arg_robot_num args),
      token = arg_token args, is_validated = False,
      has_on_validated = True, has_on_message = True,
      decode_lidar = False, decode_message = False,
      data_channel = \<lparr>label = ''data'', readyState = ''connecting'', sent = []\<rparr>\<rparr>"

text \<open>
  \<open>_on_go2_message\<close>, the \<open>on_message\<close> hook of that connection. A channel object is
  true, so \<open>not state.relay_rtc_data_channel\<close> tests for \<open>None\<close>.
\<close>

definition relay_send :: "message \<Rightarrow> unit relay_prog" where
  "relay_send m =
     and_then (gets relay_rtc_data_channel) (\<lambda>dc.
       case dc of
         None \<Rightarrow> raise (Exn (OtherError ''AttributeError'') (JStr ''NoneType has no attribute send''))
       | Some ch \<Rightarrow>
           and_then (lift (channel_send ch m)) (\<lambda>ch1.
             modify (\<lambda>s. s\<lparr>relay_rtc_data_channel := Some ch1\<rparr>)))"

definition on_go2_message :: "RobotData \<Rightarrow> unit relay_prog" where
  "on_go2_message robot_data =
     and_then (gets relay_rtc_data_channel) (\<lambda>dc.
       case dc of
         None \<Rightarrow> ret ()
       | Some ch \<Rightarrow>
           if readyState ch \<noteq> ''open'' then ret ()
           else
             attempt
               (case raw_message robot_data of
                  Some (Bytes b) \<Rightarrow> relay_send (Bytes b)
                | Some (Str s) \<Rightarrow> relay_send (Str s)
                | _ \<Rightarrow> ret ())
               (\<lambda>e. ret ()))"

text \<open>
  \<open>connect\<close>. \<open>hs\<close> is the course of the handshake. The reply carries the address of
  the robot.
\<close>

definition connect ::
  "(json \<Rightarrow> string) \<Rightarrow> (relay_call \<Rightarrow> exn option) \<Rightarrow> (connect_phase \<Rightarrow> exn option)
     \<Rightarrow> ConnectArgs \<Rightarrow> string relay_prog" where
  "connect ro outcome hs args =
     and_then (gets go2) (\<lambda>g.
       if g \<noteq> None then
         raise (Exn StateException
           (JStr ''Already connected to Go2, call disconnect first before calling connect again''))
       else
         and_then (call outcome (CreateGo2Connection (arg_robot_ip args))) (\<lambda>_.
         and_then (attempt (lift (Go2Connection_connect ro hs (new_Go2Connection args)))
                     (\<lambda>e. raise (Exn (HTTPException 502)
                                   (JStr (''GO2 connect failed: '' @ exc_str ro e))))) (\<lambda>_.
         and_then (modify (\<lambda>s. s\<lparr>go2 := Some (new_Go2Connection args)\<rparr>)) (\<lambda>_.
           ret (arg_robot_ip args)))))"

section \<open>The endpoints of the client side (webrtc\_relay\_endpoint\_webrtc.py)\<close>

text \<open>
  \<open>_on_datachannel_message\<close>, the handler of the messages of the client. A connection
  object is true, so \<open>not state.go2\<close> tests for \<open>None\<close>.
\<close>

definition on_datachannel_message :: "message \<Rightarrow> unit relay_prog" where
  "on_datachannel_message m =
     and_then (gets go2) (\<lambda>g.
       case g of
         None \<Rightarrow> ret ()
       | Some c \<Rightarrow>
           (case m of
              Str s \<Rightarrow>
                and_then (lift (publish_json_str c s)) (\<lambda>c1.
                  modify (\<lambda>s. s\<lparr>go2 := Some c1\<rparr>))
            | _ \<Rightarrow> ret ()))"

text \<open>\<open>_on_datachannel\<close>: the channel the client has created is stored.\<close>

definition on_datachannel :: "channel \<Rightarrow> unit relay_prog" where
  "on_datachannel ch = modify (\<lambda>s. s\<lparr>relay_rtc_data_channel := Some ch\<rparr>)"

text \<open>
  \<open>offer\<close>. \<open>new_pc\<close> is the peer connection the constructor returns, \<open>answer\<close> the
  local description read at the end (\<open>sdp\<close> and \<open>type\<close>).
\<close>

definition retrigger_video :: "env \<Rightarrow> unit relay_prog" where
  "retrigger_video E =
     attempt
       (and_then (gets go2) (\<lambda>g.
          case g of
            None \<Rightarrow> ret ()
          | Some c \<Rightarrow>
              and_then (lift (publish E c '''' (JStr ''on'') ''vid'')) (\<lambda>c1.
                modify (\<lambda>s. s\<lparr>go2 := Some c1\<rparr>))))
       (\<lambda>e. ret ())"

definition create_relay_session ::
  "env \<Rightarrow> (relay_call \<Rightarrow> exn option) \<Rightarrow> nat \<Rightarrow> string \<times> string
     \<Rightarrow> (string \<times> string) relay_prog" where
  "create_relay_session E outcome new_pc answer =
     and_then (call outcome CreatePeerConnection) (\<lambda>_.
     and_then (modify (\<lambda>s. s\<lparr>relay_rtc_peer_connection := Some new_pc\<rparr>)) (\<lambda>_.
     and_then (call outcome RegisterDatachannelHook) (\<lambda>_.
     and_then (gets go2_video_track) (\<lambda>track.
     and_then (case track of None \<Rightarrow> ret () | Some t \<Rightarrow> call outcome (AddTrack t)) (\<lambda>_.
     and_then (call outcome SetRemoteDescription) (\<lambda>_.
     and_then (call outcome CreateAnswer) (\<lambda>_.
     and_then (call outcome SetLocalDescription) (\<lambda>_.
     and_then (retrigger_video E) (\<lambda>_.
     and_then (call outcome ReadLocalDescription) (\<lambda>_.
       ret answer))))))))))"

definition offer ::
  "env \<Rightarrow> (relay_call \<Rightarrow> exn option) \<Rightarrow> nat \<Rightarrow> string \<times> string
     \<Rightarrow> (string \<times> string) relay_prog" where
  "offer E outcome new_pc answer =
     and_then (gets go2) (\<lambda>g.
       if g = None then
         raise (Exn StateException
           (JStr (''connection to the go2 hasn'' @ [CHR 0x27]
                  @ ''t been established yet, call /connect first'')))
       else
         and_then (close_rtc_relay_connection outcome) (\<lambda>_.
           attempt (create_relay_session E outcome new_pc answer)
             (\<lambda>e. raise (Exn StateException
                     (JStr ''Failed to create relay rtc sessiondescriptionprotocol (SDP)'')))))"

section \<open>Vocabulary of the properties\<close>

text \<open>The calls that close an object of the client side.\<close>

definition is_close :: "relay_call \<Rightarrow> bool" where
  "is_close c =
     (case c of ClosePeerConnection h \<Rightarrow> True | CloseDataChannel ch \<Rightarrow> True | _ \<Rightarrow> False)"

text \<open>
  A program is quiet when it closes nothing and leaves the peer connection and the
  data channel of the client side as they are.
\<close>

definition quiet :: "'a relay_prog \<Rightarrow> bool" where
  "quiet m =
     (\<forall>s calls. \<exists>r s1 rest.
        m (s, calls) = (r, (s1, calls @ rest)) \<and>
        (\<forall>c\<in>set rest. \<not> is_close c) \<and>
        relay_rtc_data_channel s1 = relay_rtc_data_channel s \<and>
        relay_rtc_peer_connection s1 = relay_rtc_peer_connection s)"

text \<open>The closing calls \<open>offer\<close> owes to the session it finds in the state.\<close>

definition prior_closes :: "WebRTCRelayAppState \<Rightarrow> relay_call list" where
  "prior_closes s =
     (case relay_rtc_peer_connection s of None \<Rightarrow> [] | Some h \<Rightarrow> [ClosePeerConnection h])
     @ (case relay_rtc_data_channel s of None \<Rightarrow> [] | Some ch \<Rightarrow> [CloseDataChannel ch])"

text \<open>The calls of \<open>offer\<close> inside its \<open>try\<close>, in order.\<close>

definition session_steps :: "WebRTCRelayAppState \<Rightarrow> relay_call list" where
  "session_steps s =
     [CreatePeerConnection, RegisterDatachannelHook]
     @ (case go2_video_track s of None \<Rightarrow> [] | Some t \<Rightarrow> [AddTrack t])
     @ [SetRemoteDescription, CreateAnswer, SetLocalDescription, ReadLocalDescription]"

text \<open>The number of calls of the validation hook among the calls of a session.\<close>

fun is_OnValidated :: "callback \<Rightarrow> bool" where
  "is_OnValidated (OnValidated n) = True"
| "is_OnValidated (OnMessage rd) = False"

definition validated_calls :: "callback list \<Rightarrow> nat" where
  "validated_calls calls = length (filter is_OnValidated calls)"

section \<open>Examples\<close>

text \<open>
  The state the application starts with, the default arguments of \<open>connect\<close> (no
  topics), and a handshake in which the HTTP client fails to fetch the public key.
\<close>

definition initial_state :: WebRTCRelayAppState where
  "initial_state =
     \<lparr>media_relay = 0, go2 = None, relay_rtc_peer_connection = None,
      relay_rtc_data_channel = None, go2_video_track = None\<rparr>"

definition default_args :: ConnectArgs where
  "default_args =
     \<lparr>arg_robot_ip = ''192.168.12.1'', arg_robot_num = 0, arg_token = '''',
      arg_topics_to_subscribe_to = []\<rparr>"

definition public_key_unreachable :: "connect_phase \<Rightarrow> exn option" where
  "public_key_unreachable p =
     (if p = GetPublicKey
      then Some (Exn (OtherError ''WebRTCHttpError'') (JStr ''timed out''))
      else None)"

text \<open>
  The texts of the validation exchange, as \<open>json.dumps\<close> writes them, and an
  environment that knows them: \<open>json.loads\<close> and \<open>json.dumps\<close> on these texts,
  \<open>encrypt_key\<close> on the one challenge.
\<close>

definition challenge_text :: string where
  \<open>challenge_text = ''{"type": "validation", "data": "0123456789abcdef0123456789abcdef"}''\<close>

definition validation_ok_text :: string where
  \<open>validation_ok_text = ''{"type": "validation", "data": "Validation Ok."}''\<close>

definition video_on_text :: string where
  \<open>video_on_text = ''{"type": "vid", "topic": "", "data": "on"}''\<close>

definition challenge_reply_text :: string where
  \<open>challenge_reply_text =
     ''{"type": "validation", "topic": "", "data": "JJRq0MhtSej9qSAlDNeyFg=="}''\<close>

definition sample_loads :: "string \<Rightarrow> json option" where
  "sample_loads =
     map_of
       [(challenge_text,
         JObj [(''type'', JStr ''validation''),
               (''data'', JStr ''0123456789abcdef0123456789abcdef'')]),
        (validation_ok_text,
         JObj [(''type'', JStr ''validation''), (''data'', JStr ''Validation Ok.'')])]"

definition sample_dumps :: "json \<Rightarrow> string" where
  "sample_dumps j =
     (if j = JObj [(''type'', JStr ''vid''), (''topic'', JStr ''''), (''data'', JStr ''on'')]
      then video_on_text
      else if j = JObj [(''type'', JStr ''validation''), (''topic'', JStr ''''),
                        (''data'', JStr ''JJRq0MhtSej9qSAlDNeyFg=='')]
      then challenge_reply_text
      else ''null'')"

definition sample_encrypt_key :: "json \<Rightarrow> exn + json" where
  "sample_encrypt_key k =
     (if k = JStr ''0123456789abcdef0123456789abcdef''
      then Inr (JStr ''JJRq0MhtSej9qSAlDNeyFg=='')
      else Inl (Exn TypeError (JStr ''can only concatenate str'')))"

definition sample_env :: env where
  "sample_env =
     \<lparr>json_loads = sample_loads, json_dumps = sample_dumps,
      encrypt_key = sample_encrypt_key,
      deal_array_buffer = (\<lambda>b d. Inr JNull),
      int_to_double = real_of_int,
      repr_other = sample_repr,
      RTC_TOPIC = \<lparr>ULIDAR_ARRAY = ''rt/utlidar/voxel_map_compressed'',
                   ROBOTODOM = ''rt/utlidar/robot_pose'',
                   LF_SPORT_MOD_STATE = ''rt/lf/sportmodestate'',
                   LOW_STATE = ''rt/lf/lowstate''\<rparr>\<rparr>"

text \<open>A connection as \<open>connect\<close> stores it, and a relay with a client attached.\<close>

definition sample_connection :: Go2Connection where
  "sample_connection = new_Go2Connection default_args"

definition client_channel :: channel where
  "client_channel = \<lparr>label = ''data'', readyState = ''open'', sent = []\<rparr>"

definition relaying_state :: WebRTCRelayAppState where
  "relaying_state =
     \<lparr>media_relay = 0, go2 = Some sample_connection, relay_rtc_peer_connection = Some 1,
      relay_rtc_data_channel = Some client_channel, go2_video_track = None\<rparr>"

text \<open>
  The sport mode state of the mock server (\<open>make_sportmodestate\<close>), with the velocity
  and the body height given.
\<close>

definition sportmodestate_with :: "json \<Rightarrow> json \<Rightarrow> json" where
  "sportmodestate_with v h =
     JObj [(''mode'', JStr ''mock''), (''progress'', JInt 0), (''gait_type'', JStr ''mock''),
           (''position'', JArr [JFloat (Finite 0), JFloat (Finite 0), JFloat (Finite 0)]),
           (''body_height'', h),
           (''velocity'', v),
           (''range_obstacle'', JArr []),
           (''foot_force'', JFloat (Finite 0)),
           (''foot_position_body'',
            JArr [JFloat (Finite 0), JFloat (Finite 0), JFloat (Finite 0), JFloat (Finite 0)]),
           (''foot_speed_body'',
            JArr [JFloat (Finite 0), JFloat (Finite 0), JFloat (Finite 0), JFloat (Finite 0)]),
           (''imu_state'',
            JObj [(''quaternion'',
                   JArr [JFloat (Finite 0), JFloat (Finite 0), JFloat (Finite 0),
                         JFloat (Finite 1)]),
                  (''accelerometer'',
                   JArr [JFloat (Finite 0), JFloat (Finite 0), JFloat (Finite 0)]),
                  (''gyroscope'',
                   JArr [JFloat (Finite 0), JFloat (Finite 0), JFloat (Finite 0)]),
                  (''rpy'', JArr [JFloat (Finite 0), JFloat (Finite 0), JFloat (Finite 0)]),
                  (''temperature'', JFloat (Finite 0))])]"

text \<open>A float that is not finite: a NaN or an infinity.\<close>

fun nonfinite :: "json \<Rightarrow> bool" where
  "nonfinite (JFloat NaN) = True"
| "nonfinite (JFloat PosInf) = True"
| "nonfinite (JFloat NegInf) = True"
| "nonfinite j = False"

text \<open>The fields of a sport mode state and of its IMU state that the parser validates.\<close>

definition validated_state_lists :: "string list" where
  "validated_state_lists =
     [''position'', ''range_obstacle'', ''foot_position_body'', ''foot_speed_body'']"

definition validated_imu_lists :: "string list" where
  "validated_imu_lists = [''quaternion'', ''accelerometer'', ''gyroscope'', ''rpy'']"

text \<open>A message of the robot that \<open>on_data_channel_message\<close> hands to \<open>on_message\<close>.\<close>

fun is_data :: "message \<Rightarrow> bool" where
  "is_data (Str s) = True"
| "is_data (Bytes b) = True"
| "is_data (NotData j) = False"

fun relayed :: "env \<Rightarrow> Go2Connection \<Rightarrow> message \<Rightarrow> bool" where
  "relayed E c (Str s) =
     (if is_validated c then True
      else (case json_loads E s of
              None \<Rightarrow> False
            | Some obj \<Rightarrow>
                (case subscript obj ''type'' of
                   Inl e \<Rightarrow> False
                 | Inr ty \<Rightarrow> ty \<noteq> JStr ''validation'')))"
| "relayed E c m = True"

fun is_OnMessage :: "callback \<Rightarrow> bool" where
  "is_OnMessage (OnMessage rd) = True"
| "is_OnMessage (OnValidated n) = False"

section \<open>Properties of the error taxonomy\<close>

lemma lookup_taxonomy:
  "c \<in> taxonomy \<Longrightarrow>
   lookup_exception_handler (exception_handlers alias ro) (mro c) =
     Some (if c = StateException then app_state_exception_handler ro
           else if c = ValueError then app_value_error_handler ro
           else if c = KeyError then app_key_error_handler ro
           else if c = IndexError then app_index_error_handler ro
           else if c = RuntimeError then app_runtime_error_handler ro
           else if alias then app_asyncio_timeout_error_handler ro
           else app_timeout_error_handler ro)"
  by (auto simp: taxonomy_def exception_handlers_def registrations_def mro_def
      asyncio_TimeoutError_def)

lemma http_response_taxonomy:
  "c \<in> taxonomy \<Longrightarrow>
   http_response alias ro (Exn c a) =
     (if c = StateException then app_state_exception_handler ro (Exn c a)
      else if c = ValueError then app_value_error_handler ro (Exn c a)
      else if c = KeyError then app_key_error_handler ro (Exn c a)
      else if c = IndexError then app_index_error_handler ro (Exn c a)
      else if c = RuntimeError then app_runtime_error_handler ro (Exn c a)
      else if alias then app_asyncio_timeout_error_handler ro (Exn c a)
      else app_timeout_error_handler ro (Exn c a))"
  using lookup_taxonomy [of c "alias" ro]
  by (cases c) (simp_all add: http_response_def taxonomy_def)

lemma recreate_tagged:
  "recreate_and_raise_exception ro (content (tagged_response code d tag)) =
     (if tag = ''runtime_error'' then Inl (Exn RuntimeError (JStr d))
      else if tag = ''value_error'' then Inl (Exn ValueError (JStr d))
      else if tag = ''index_error'' then Inl (Exn IndexError (JStr d))
      else if tag = ''key_error'' then Inl (Exn KeyError (JStr d))
      else if tag = ''state_exception'' then Inl (Exn StateException (JStr d))
      else if tag = ''timeout_error'' then Inl (Exn TimeoutError (JStr d))
      else if tag = ''asyncio_timeout_error'' then
        Inl (Exn TimeoutError (JStr (''asyncio.TimeoutError, detail='' @ py_repr_str d)))
      else Inl (Exn Exception
             (JStr (''exception_type='' @ py_repr_str tag @ '' : detail='' @ py_repr_str d))))"
  by (simp add: recreate_and_raise_exception_def tagged_response_def)

lemma taxonomy_status_code:
  "c \<in> taxonomy \<Longrightarrow>
   status_code (http_response alias ro (Exn c (JStr d))) = taxonomy_status c"
  apply (simp only: http_response_taxonomy)
  apply (auto simp: taxonomy_def tagged_response_def
      app_state_exception_handler_def app_value_error_handler_def app_key_error_handler_def
      app_index_error_handler_def app_runtime_error_handler_def app_timeout_error_handler_def
      app_asyncio_timeout_error_handler_def)
  done

lemma taxonomy_recreate:
  "c \<in> taxonomy \<Longrightarrow>
   recreate_and_raise_exception ro (content (http_response alias ro (Exn c (JStr d)))) =
     Inl (Exn c (JStr (carried_detail alias c d)))"
  apply (simp only: http_response_taxonomy)
  apply (auto simp: taxonomy_def recreate_tagged carried_detail_def
      app_state_exception_handler_def app_value_error_handler_def app_key_error_handler_def
      app_index_error_handler_def app_runtime_error_handler_def app_timeout_error_handler_def
      app_asyncio_timeout_error_handler_def)
  done

lemma recreate_always_raises: "\<exists>e. recreate_and_raise_exception ro b = Inl e"
  by (simp add: recreate_and_raise_exception_def split: option.splits)

lemma tags_neq:
  "t \<notin> known_tags \<Longrightarrow>
     t \<noteq> JStr ''runtime_error'' \<and> t \<noteq> JStr ''value_error'' \<and>
     t \<noteq> JStr ''index_error'' \<and> t \<noteq> JStr ''key_error'' \<and>
     t \<noteq> JStr ''state_exception'' \<and> t \<noteq> JStr ''timeout_error'' \<and>
     t \<noteq> JStr ''asyncio_timeout_error''"
  unfolding known_tags_def by (simp only: insert_iff empty_iff de_Morgan_disj simp_thms)

lemma recreate_unknown_tag:
  assumes d: "map_of b ''detail'' = Some d"
    and t: "map_of b ''exception_type'' = Some t"
    and n: "t \<notin> known_tags"
  shows "recreate_and_raise_exception ro b =
     Inl (Exn Exception (JStr (''exception_type='' @ py_repr ro t
                               @ '' : detail='' @ py_repr ro d)))"
  unfolding recreate_and_raise_exception_def
  using d t tags_neq [OF n] by (simp only: option.case if_False)

lemma recreate_generic:
  assumes a: "map_of b ''detail'' = None \<or> map_of b ''exception_type'' = None
     \<or> (\<exists>t. map_of b ''exception_type'' = Some t \<and> t \<notin> known_tags)"
  shows "\<exists>m. recreate_and_raise_exception ro b = Inl (Exn Exception (JStr m))"
proof (cases "map_of b ''detail''")
  case None
  then have "recreate_and_raise_exception ro b =
      Inl (Exn Exception (JStr ''detail and type unknown''))"
    unfolding recreate_and_raise_exception_def by (simp only: option.case)
  then show ?thesis ..
next
  case (Some d)
  show ?thesis
  proof (cases "map_of b ''exception_type''")
    case None
    with Some have "recreate_and_raise_exception ro b =
        Inl (Exn Exception (JStr (''type unknown. detail='' @ py_repr ro d)))"
      unfolding recreate_and_raise_exception_def by (simp only: option.case)
    then show ?thesis ..
  next
    case t: (Some t)
    with a Some have "t \<notin> known_tags"
      by (simp only: option.inject option.distinct simp_thms ex_simps)
    from recreate_unknown_tag [OF Some t this] show ?thesis ..
  qed
qed

lemma siblings_keep_detail:
  assumes "c \<in> {StateException, ValueError, IndexError, RuntimeError}"
  shows "recreate_and_raise_exception ro (content (http_response alias ro (Exn c (JStr d)))) =
     Inl (Exn c (JStr d))"
proof -
  from assms have t: "c \<in> taxonomy"
    by (auto simp: taxonomy_def)
  from assms have "carried_detail alias c d = d"
    by (auto simp: carried_detail_def)
  with taxonomy_recreate [OF t, of ro "alias" d] show ?thesis
    by simp
qed

lemma timeout_keeps_detail_without_alias:
  "recreate_and_raise_exception ro
     (content (http_response False ro (Exn TimeoutError (JStr d)))) =
     Inl (Exn TimeoutError (JStr d))"
proof -
  have t: "TimeoutError \<in> taxonomy"
    by (simp add: taxonomy_def)
  have "carried_detail False TimeoutError d = d"
    by (simp add: carried_detail_def)
  with taxonomy_recreate [OF t, of ro False d] show ?thesis
    by simp
qed

lemma timeout_handler_replaced_under_alias:
  "exception_handlers True ro TimeoutError = Some (app_asyncio_timeout_error_handler ro)"
  by (simp add: exception_handlers_def registrations_def asyncio_TimeoutError_def)

text \<open>
  C7. Every error kind of the taxonomy is serialized by the same line,
  \<open>{"detail": str(exc), "exception_type": tag}\<close>, and rebuilt by \<open>Kind(detail)\<close>. For
  \<open>StateException\<close>, \<open>ValueError\<close>, \<open>IndexError\<close> and \<open>RuntimeError\<close> the rebuilt exception
  carries the detail (\<open>siblings_keep_detail\<close>). For \<open>KeyError\<close> it does not: \<open>str\<close> of a
  \<open>KeyError\<close> is the \<open>repr\<close> of its argument, so \<open>KeyError('foo')\<close> is answered with status
  422 and the detail \<open>'foo'\<close>, quotes included, and is rebuilt as \<open>KeyError("'foo'")\<close>, which
  is not the exception that was raised.
\<close>

theorem key_error_round_trip_loses_detail:
  "http_response False sample_repr (Exn KeyError (JStr ''foo'')) =
     \<lparr>status_code = 422,
      content = [(''detail'', JStr [CHR 0x27, CHR ''f'', CHR ''o'', CHR ''o'', CHR 0x27]),
                 (''exception_type'', JStr ''key_error'')]\<rparr> \<and>
   recreate_and_raise_exception sample_repr
     (content (http_response False sample_repr (Exn KeyError (JStr ''foo'')))) =
     Inl (Exn KeyError (JStr [CHR 0x27, CHR ''f'', CHR ''o'', CHR ''o'', CHR 0x27])) \<and>
   recreate_and_raise_exception sample_repr
     (content (http_response False sample_repr (Exn KeyError (JStr ''foo'')))) \<noteq>
     Inl (Exn KeyError (JStr ''foo''))"
proof -
  have k: "KeyError \<in> taxonomy"
    by (simp add: taxonomy_def)
  have q: "py_repr_str ''foo'' = [CHR 0x27, CHR ''f'', CHR ''o'', CHR ''o'', CHR 0x27]"
    by (simp add: py_repr_str_def repr_char_def Let_def)
  have r: "http_response False sample_repr (Exn KeyError (JStr ''foo'')) =
      tagged_response 422 (py_repr_str ''foo'') ''key_error''"
    using http_response_taxonomy [OF k, of False sample_repr "JStr ''foo''"]
    by (simp add: app_key_error_handler_def)
  have c: "recreate_and_raise_exception sample_repr
      (content (http_response False sample_repr (Exn KeyError (JStr ''foo'')))) =
      Inl (Exn KeyError (JStr (py_repr_str ''foo'')))"
    using taxonomy_recreate [OF k, of sample_repr False "''foo''"]
    by (simp add: carried_detail_def)
  from r q c show ?thesis
    by (simp add: tagged_response_def)
qed

text \<open>
  Where \<open>asyncio.TimeoutError\<close> is the builtin \<open>TimeoutError\<close>, the handler registered for
  \<open>TimeoutError\<close> is replaced by the one registered after it
  (\<open>timeout_handler_replaced_under_alias\<close>), and the detail of a \<open>TimeoutError\<close> comes back
  wrapped; where the two classes differ it comes back as it was raised
  (\<open>timeout_keeps_detail_without_alias\<close>).
\<close>

lemma timeout_error_wrapped_under_alias:
  "recreate_and_raise_exception sample_repr
     (content (http_response True sample_repr (Exn TimeoutError (JStr ''x'')))) =
     Inl (Exn TimeoutError
       (JStr (''asyncio.TimeoutError, detail='' @ [CHR 0x27, CHR ''x'', CHR 0x27])))"
proof -
  have t: "TimeoutError \<in> taxonomy"
    by (simp add: taxonomy_def)
  have "carried_detail True TimeoutError ''x'' =
      ''asyncio.TimeoutError, detail='' @ [CHR 0x27, CHR ''x'', CHR 0x27]"
    by (simp add: carried_detail_def py_repr_str_def repr_char_def Let_def)
  with taxonomy_recreate [OF t, of sample_repr True "''x''"] show ?thesis
    by simp
qed

section \<open>Properties of the programs\<close>

lemma ret_apply: "ret v w = (Inr v, w)"
  by (simp add: ret_def)

lemma and_then_ret: "and_then (ret v) f w = f v w"
  by (simp add: and_then_def ret_def)

lemma and_then_call:
  "and_then (call outcome c) f (s, calls) =
     (case outcome c of
        Some e \<Rightarrow> (Inl e, (s, calls @ [c]))
      | None \<Rightarrow> f () (s, calls @ [c]))"
  by (simp add: and_then_def call_def split: option.splits)

lemma and_then_modify: "and_then (modify g) f (s, calls) = f () (g s, calls)"
  by (simp add: and_then_def modify_def)

lemma and_then_gets: "and_then (gets g) f (s, calls) = f (g s) (s, calls)"
  by (simp add: and_then_def gets_def)

lemma and_then_raise: "and_then (raise e) f w = (Inl e, w)"
  by (simp add: and_then_def raise_def)

lemma and_then_attempt_lift:
  "and_then (attempt (lift r) h) f w =
     (case r of Inl e \<Rightarrow> and_then (h e) f w | Inr v \<Rightarrow> f v w)"
  by (simp add: and_then_def attempt_def lift_def split: sum.splits)

lemma attempt_raise:
  "attempt m (\<lambda>e. raise x) w =
     (case m w of (Inl e, w1) \<Rightarrow> (Inl x, w1) | (Inr v, w1) \<Rightarrow> (Inr v, w1))"
  by (simp add: attempt_def raise_def split: prod.splits sum.splits)

section \<open>Teardown\<close>

text \<open>
  C8. \<open>Go2Connection.disconnect\<close> calls \<open>close\<close> on the peer connection, on the data
  channel and on the HTTP client, in this order, whatever each of the calls does: an
  exception of one call does not keep the later calls from being made, and
  \<open>disconnect\<close> itself returns normally. A resource that is closed already is a
  resource whose \<open>close\<close> returns or raises: both are outcomes.
\<close>

theorem disconnect_closes_every_resource:
  "Go2Connection_disconnect outcome (c, calls) =
     (Inr (), (c, calls @ [PeerConnection, DataChannel, HttpClient]))"
  by (simp add: Go2Connection_disconnect_def and_then_def attempt_def call_def ret_def
      split: option.splits)

section \<open>The connect endpoint\<close>

lemma http_response_state_exception:
  "http_response alias ro (Exn StateException (JStr d)) = tagged_response 409 d ''state_exception''"
proof -
  have "StateException \<in> taxonomy"
    by (simp add: taxonomy_def)
  from http_response_taxonomy [OF this, of "alias" ro "JStr d"] show ?thesis
    by (simp add: app_state_exception_handler_def)
qed

lemma connect_refused:
  "go2 s \<noteq> None \<Longrightarrow>
   connect ro outcome hs args (s, calls) =
     (Inl (Exn StateException
        (JStr ''Already connected to Go2, call disconnect first before calling connect again'')),
      (s, calls))"
  by (simp add: connect_def and_then_gets raise_def)

lemma connect_stores_session:
  "connect ro outcome hs args (s0, calls0) = (Inr reply, (s1, calls1)) \<Longrightarrow>
   go2 s0 = None \<and> s1 = s0\<lparr>go2 := Some (new_Go2Connection args)\<rparr>"
  by (auto simp add: connect_def and_then_def gets_def raise_def call_def attempt_def
      lift_def modify_def ret_def split: if_splits option.splits sum.splits prod.splits)

text \<open>
  C3. When a call of \<open>connect\<close> has returned, the session it constructed is stored, and
  the next call of \<open>connect\<close>, whatever its arguments, raises \<open>StateException\<close>: the state
  is the one the first call left, no call has been made (no connection constructed),
  and the HTTP boundary answers 409 with the tag \<open>state_exception\<close>.
\<close>

theorem second_connect_is_refused:
  assumes "connect ro outcome_a hs_a args_a (s0, calls0) = (Inr reply, (s1, calls1))"
  shows "go2 s1 = Some (new_Go2Connection args_a) \<and>
     connect ro outcome_b hs_b args_b (s1, calls1) =
       (Inl (Exn StateException
          (JStr ''Already connected to Go2, call disconnect first before calling connect again'')),
        (s1, calls1)) \<and>
     http_response aliased ro (Exn StateException
          (JStr ''Already connected to Go2, call disconnect first before calling connect again'')) =
       tagged_response 409
         ''Already connected to Go2, call disconnect first before calling connect again''
         ''state_exception''"
proof -
  from connect_stores_session [OF assms] have g: "go2 s1 = Some (new_Go2Connection args_a)"
    by simp
  then have "go2 s1 \<noteq> None"
    by simp
  from g connect_refused [OF this] http_response_state_exception show ?thesis
    by simp
qed

lemma first_connect:
  "connect sample_repr (\<lambda>c. None) (\<lambda>p. None) default_args (initial_state, []) =
     (Inr ''192.168.12.1'',
      (initial_state\<lparr>go2 := Some (new_Go2Connection default_args)\<rparr>,
       [CreateGo2Connection ''192.168.12.1'']))"
  by (simp add: connect_def and_then_gets and_then_call and_then_modify ret_apply
      initial_state_def default_args_def and_then_attempt_lift
      Go2Connection_connect_def phase_def try_except_def bindE_def)

theorem second_connect_is_refused_witness:
  "connect sample_repr (\<lambda>c. None) (\<lambda>p. None) default_args (initial_state, []) =
     (Inr ''192.168.12.1'',
      (initial_state\<lparr>go2 := Some (new_Go2Connection default_args)\<rparr>,
       [CreateGo2Connection ''192.168.12.1''])) \<and>
   connect sample_repr (\<lambda>c. None) (\<lambda>p. None) default_args
     (initial_state\<lparr>go2 := Some (new_Go2Connection default_args)\<rparr>,
      [CreateGo2Connection ''192.168.12.1'']) =
     (Inl (Exn StateException
        (JStr ''Already connected to Go2, call disconnect first before calling connect again'')),
      (initial_state\<lparr>go2 := Some (new_Go2Connection default_args)\<rparr>,
       [CreateGo2Connection ''192.168.12.1'']))"
  using first_connect
    second_connect_is_refused [OF first_connect, where outcome_b = "\<lambda>c. None"
      and hs_b = "\<lambda>p. None" and args_b = default_args]
  by simp

lemma connect_raises_connection_error:
  "Go2Connection_connect ro hs c = Inl e \<Longrightarrow> exn_cls e = Go2ConnectionError"
  by (auto simp add: Go2Connection_connect_def phase_def try_except_def bindE_def
      split: option.splits if_splits sum.splits)

lemma phase_failure_raises:
  "hs p = Some x \<Longrightarrow> \<exists>e1. Go2Connection_connect ro hs c = Inl e1"
  by (cases p) (auto simp add: Go2Connection_connect_def phase_def try_except_def bindE_def
      split: option.splits if_splits sum.splits)

lemma connect_handshake_failure:
  "go2 s = None \<Longrightarrow> outcome (CreateGo2Connection (arg_robot_ip args)) = None \<Longrightarrow>
   Go2Connection_connect ro hs (new_Go2Connection args) = Inl e \<Longrightarrow>
   connect ro outcome hs args (s, calls) =
     (Inl (Exn (HTTPException 502) (JStr (''GO2 connect failed: '' @ exc_str ro e))),
      (s, calls @ [CreateGo2Connection (arg_robot_ip args)]))"
  by (simp add: connect_def and_then_gets and_then_call and_then_attempt_lift and_then_raise)

lemma connect_assigns_after_success:
  "go2 s = None \<Longrightarrow> go2 (fst (snd (connect ro outcome hs args (s, calls)))) \<noteq> None \<Longrightarrow>
   Go2Connection_connect ro hs (new_Go2Connection args) = Inr ()"
  by (auto simp add: connect_def and_then_def gets_def raise_def call_def attempt_def
      lift_def modify_def ret_def split: if_splits option.splits sum.splits prod.splits)

text \<open>
  C5. In a call of \<open>connect\<close> that finds no session and reaches the handshake: if
  \<open>go2.connect()\<close> raises, whatever the exception, the handler raises \<open>HTTPException\<close>
  with status 502, which the HTTP boundary answers with 502, and the state is the
  state before the call, \<open>state.go2\<close> still \<open>None\<close>. A state with a session after the
  call means that \<open>go2.connect()\<close> has returned. The handshake raises as soon as one
  of its phases does.
\<close>

theorem failed_handshake_stores_no_session:
  assumes "go2 s = None"
  shows "(outcome (CreateGo2Connection (arg_robot_ip args)) = None \<and>
      Go2Connection_connect ro hs (new_Go2Connection args) = Inl e \<longrightarrow>
        connect ro outcome hs args (s, calls) =
          (Inl (Exn (HTTPException 502) (JStr (''GO2 connect failed: '' @ exc_str ro e))),
           (s, calls @ [CreateGo2Connection (arg_robot_ip args)])) \<and>
        status_code (http_response aliased ro
          (Exn (HTTPException 502) (JStr (''GO2 connect failed: '' @ exc_str ro e)))) = 502) \<and>
     (go2 (fst (snd (connect ro outcome hs args (s, calls)))) \<noteq> None \<longrightarrow>
        Go2Connection_connect ro hs (new_Go2Connection args) = Inr ()) \<and>
     (hs p = Some x \<longrightarrow> (\<exists>e1. Go2Connection_connect ro hs (new_Go2Connection args) = Inl e1))"
proof (intro conjI impI)
  assume a: "outcome (CreateGo2Connection (arg_robot_ip args)) = None \<and>
      Go2Connection_connect ro hs (new_Go2Connection args) = Inl e"
  with assms show "connect ro outcome hs args (s, calls) =
      (Inl (Exn (HTTPException 502) (JStr (''GO2 connect failed: '' @ exc_str ro e))),
       (s, calls @ [CreateGo2Connection (arg_robot_ip args)]))"
    by (simp add: connect_handshake_failure)
next
  show "status_code (http_response aliased ro
      (Exn (HTTPException 502) (JStr (''GO2 connect failed: '' @ exc_str ro e)))) = 502"
    by (simp add: http_response_def)
next
  assume "go2 (fst (snd (connect ro outcome hs args (s, calls)))) \<noteq> None"
  with assms show "Go2Connection_connect ro hs (new_Go2Connection args) = Inr ()"
    by (rule connect_assigns_after_success)
next
  assume "hs p = Some x"
  then show "\<exists>e1. Go2Connection_connect ro hs (new_Go2Connection args) = Inl e1"
    by (rule phase_failure_raises)
qed

lemma unreachable_handshake:
  "Go2Connection_connect sample_repr public_key_unreachable (new_Go2Connection default_args) =
     Inl (Exn Go2ConnectionError (JStr ''Failed to get robot public key: timed out''))"
  by (simp add: Go2Connection_connect_def phase_def try_except_def bindE_def
      public_key_unreachable_def transport_or_crypto_error_def)

theorem failed_handshake_stores_no_session_witness:
  "go2 initial_state = None \<and>
   connect sample_repr (\<lambda>c. None) public_key_unreachable default_args (initial_state, []) =
     (Inl (Exn (HTTPException 502)
        (JStr ''GO2 connect failed: Failed to get robot public key: timed out'')),
      (initial_state, [CreateGo2Connection ''192.168.12.1''])) \<and>
   status_code (http_response False sample_repr
     (Exn (HTTPException 502)
        (JStr ''GO2 connect failed: Failed to get robot public key: timed out''))) = 502 \<and>
   go2 (fst (snd (connect sample_repr (\<lambda>c. None) (\<lambda>p. None) default_args (initial_state, []))))
     \<noteq> None \<and>
   Go2Connection_connect sample_repr (\<lambda>p. None) (new_Go2Connection default_args) = Inr ()"
proof -
  have n: "go2 initial_state = None"
    by (simp add: initial_state_def)
  have ip: "arg_robot_ip default_args = ''192.168.12.1''"
    by (simp add: default_args_def)
  from failed_handshake_stores_no_session [OF n, where outcome = "\<lambda>c. None"
      and args = default_args and ro = sample_repr and hs = public_key_unreachable
      and e = "Exn Go2ConnectionError (JStr ''Failed to get robot public key: timed out'')"
      and calls = "[]" and aliased = False]
    unreachable_handshake ip
  have 1: "connect sample_repr (\<lambda>c. None) public_key_unreachable default_args (initial_state, []) =
     (Inl (Exn (HTTPException 502)
        (JStr ''GO2 connect failed: Failed to get robot public key: timed out'')),
      (initial_state, [CreateGo2Connection ''192.168.12.1''])) \<and>
   status_code (http_response False sample_repr
     (Exn (HTTPException 502)
        (JStr ''GO2 connect failed: Failed to get robot public key: timed out''))) = 502"
    by simp
  have 2: "go2 (fst (snd (connect sample_repr (\<lambda>c. None) (\<lambda>p. None) default_args
      (initial_state, [])))) \<noteq> None"
    by (simp add: first_connect)
  from failed_handshake_stores_no_session [OF n, where outcome = "\<lambda>c. None"
      and args = default_args and ro = sample_repr and hs = "\<lambda>p. None" and calls = "[]"] 2
  have 3: "Go2Connection_connect sample_repr (\<lambda>p. None) (new_Go2Connection default_args) = Inr ()"
    by simp
  from n 1 2 3 show ?thesis
    by simp
qed

section \<open>The offer endpoint\<close>

lemma quiet_ret: "quiet (ret v)"
  by (simp add: quiet_def ret_def)

lemma quiet_lift: "quiet (lift r)"
  by (simp add: quiet_def lift_def)

lemma quiet_gets: "quiet (gets f)"
  by (simp add: quiet_def gets_def)

lemma quiet_call: "\<not> is_close c \<Longrightarrow> quiet (call outcome c)"
  by (simp add: quiet_def call_def)

lemma quiet_modify_go2: "quiet (modify (\<lambda>s. s\<lparr>go2 := g\<rparr>))"
  by (simp add: quiet_def modify_def)

lemma quiet_and_then:
  assumes m: "quiet m" and f: "\<And>v. quiet (f v)"
  shows "quiet (and_then m f)"
  unfolding quiet_def
proof (intro allI)
  fix s calls
  from m obtain r s1 rest where 1: "m (s, calls) = (r, (s1, calls @ rest))"
    and 2: "\<forall>c\<in>set rest. \<not> is_close c"
    and 3: "relay_rtc_data_channel s1 = relay_rtc_data_channel s"
    and 4: "relay_rtc_peer_connection s1 = relay_rtc_peer_connection s"
    unfolding quiet_def by blast
  show "\<exists>r s1 rest. and_then m f (s, calls) = (r, (s1, calls @ rest)) \<and>
      (\<forall>c\<in>set rest. \<not> is_close c) \<and>
      relay_rtc_data_channel s1 = relay_rtc_data_channel s \<and>
      relay_rtc_peer_connection s1 = relay_rtc_peer_connection s"
  proof (cases r)
    case (Inl e)
    with 1 have "and_then m f (s, calls) = (Inl e, (s1, calls @ rest))"
      by (simp add: and_then_def)
    with 2 3 4 show ?thesis by blast
  next
    case (Inr v)
    from f [of v] obtain r2 s2 rest2
      where 5: "f v (s1, calls @ rest) = (r2, (s2, (calls @ rest) @ rest2))"
      and 6: "\<forall>c\<in>set rest2. \<not> is_close c"
      and 7: "relay_rtc_data_channel s2 = relay_rtc_data_channel s1"
      and 8: "relay_rtc_peer_connection s2 = relay_rtc_peer_connection s1"
      unfolding quiet_def by blast
    from 1 Inr 5 have "and_then m f (s, calls) = (r2, (s2, calls @ (rest @ rest2)))"
      by (simp add: and_then_def)
    moreover from 2 6 have "\<forall>c\<in>set (rest @ rest2). \<not> is_close c"
      by auto
    ultimately show ?thesis
      using 3 4 7 8 by (metis (no_types, lifting))
  qed
qed

lemma quiet_attempt:
  assumes m: "quiet m" and h: "\<And>e. quiet (h e)"
  shows "quiet (attempt m h)"
  unfolding quiet_def
proof (intro allI)
  fix s calls
  from m obtain r s1 rest where 1: "m (s, calls) = (r, (s1, calls @ rest))"
    and 2: "\<forall>c\<in>set rest. \<not> is_close c"
    and 3: "relay_rtc_data_channel s1 = relay_rtc_data_channel s"
    and 4: "relay_rtc_peer_connection s1 = relay_rtc_peer_connection s"
    unfolding quiet_def by blast
  show "\<exists>r s1 rest. attempt m h (s, calls) = (r, (s1, calls @ rest)) \<and>
      (\<forall>c\<in>set rest. \<not> is_close c) \<and>
      relay_rtc_data_channel s1 = relay_rtc_data_channel s \<and>
      relay_rtc_peer_connection s1 = relay_rtc_peer_connection s"
  proof (cases r)
    case (Inr v)
    with 1 have "attempt m h (s, calls) = (Inr v, (s1, calls @ rest))"
      by (simp add: attempt_def)
    with 2 3 4 show ?thesis by blast
  next
    case (Inl e)
    from h [of e] obtain r2 s2 rest2
      where 5: "h e (s1, calls @ rest) = (r2, (s2, (calls @ rest) @ rest2))"
      and 6: "\<forall>c\<in>set rest2. \<not> is_close c"
      and 7: "relay_rtc_data_channel s2 = relay_rtc_data_channel s1"
      and 8: "relay_rtc_peer_connection s2 = relay_rtc_peer_connection s1"
      unfolding quiet_def by blast
    from 1 Inl 5 have "attempt m h (s, calls) = (r2, (s2, calls @ (rest @ rest2)))"
      by (simp add: attempt_def)
    moreover from 2 6 have "\<forall>c\<in>set (rest @ rest2). \<not> is_close c"
      by auto
    ultimately show ?thesis
      using 3 4 7 8 by (metis (no_types, lifting))
  qed
qed

lemma publish_returns:
  "\<exists>c1. publish E c topic d ty = Inr c1 \<and> is_validated c1 = is_validated c \<and>
        has_on_validated c1 = has_on_validated c \<and> robot_num c1 = robot_num c"
  by (simp add: publish_def try_except_def bindE_def split: sum.splits)

lemma quiet_retrigger_video: "quiet (retrigger_video E)"
  unfolding retrigger_video_def
  by (intro quiet_attempt quiet_and_then quiet_gets quiet_ret)
     (auto split: option.splits intro!: quiet_ret quiet_and_then quiet_lift quiet_modify_go2)

lemma quiet_negotiation:
  "quiet (and_then (call outcome RegisterDatachannelHook) (\<lambda>_.
     and_then (gets go2_video_track) (\<lambda>track.
     and_then (case track of None \<Rightarrow> ret () | Some t \<Rightarrow> call outcome (AddTrack t)) (\<lambda>_.
     and_then (call outcome SetRemoteDescription) (\<lambda>_.
     and_then (call outcome CreateAnswer) (\<lambda>_.
     and_then (call outcome SetLocalDescription) (\<lambda>_.
     and_then (retrigger_video E) (\<lambda>_.
     and_then (call outcome ReadLocalDescription) (\<lambda>_.
       ret answer)))))))))"
  by (intro quiet_and_then quiet_call quiet_gets quiet_retrigger_video quiet_ret)
     (auto simp: is_close_def split: option.splits intro!: quiet_ret quiet_call)

lemma session_calls:
  "\<exists>r s1 rest.
     create_relay_session E outcome new_pc answer (s, calls) =
       (r, (s1, calls @ CreatePeerConnection # rest)) \<and>
     (\<forall>c\<in>set rest. \<not> is_close c) \<and>
     relay_rtc_data_channel s1 = relay_rtc_data_channel s \<and>
     relay_rtc_peer_connection s1 =
       (if outcome CreatePeerConnection = None then Some new_pc
        else relay_rtc_peer_connection s)"
proof (cases "outcome CreatePeerConnection")
  case (Some e)
  then have "create_relay_session E outcome new_pc answer (s, calls) =
      (Inl e, (s, calls @ CreatePeerConnection # []))"
    by (simp add: create_relay_session_def and_then_call)
  with Some show ?thesis
    by (metis (no_types, lifting) empty_iff list.set(1) option.distinct(1))
next
  case None
  from quiet_negotiation [of outcome E answer]
  obtain r s1 rest where 1: "and_then (call outcome RegisterDatachannelHook) (\<lambda>_.
     and_then (gets go2_video_track) (\<lambda>track.
     and_then (case track of None \<Rightarrow> ret () | Some t \<Rightarrow> call outcome (AddTrack t)) (\<lambda>_.
     and_then (call outcome SetRemoteDescription) (\<lambda>_.
     and_then (call outcome CreateAnswer) (\<lambda>_.
     and_then (call outcome SetLocalDescription) (\<lambda>_.
     and_then (retrigger_video E) (\<lambda>_.
     and_then (call outcome ReadLocalDescription) (\<lambda>_.
       ret answer))))))))
      (s\<lparr>relay_rtc_peer_connection := Some new_pc\<rparr>, calls @ [CreatePeerConnection])
      = (r, (s1, (calls @ [CreatePeerConnection]) @ rest))"
    and 2: "\<forall>c\<in>set rest. \<not> is_close c"
    and 3: "relay_rtc_data_channel s1 =
        relay_rtc_data_channel (s\<lparr>relay_rtc_peer_connection := Some new_pc\<rparr>)"
    and 4: "relay_rtc_peer_connection s1 =
        relay_rtc_peer_connection (s\<lparr>relay_rtc_peer_connection := Some new_pc\<rparr>)"
    unfolding quiet_def by blast
  from None 1 have "create_relay_session E outcome new_pc answer (s, calls) =
      (r, (s1, calls @ CreatePeerConnection # rest))"
    by (simp add: create_relay_session_def and_then_call and_then_modify)
  with None 2 3 4 show ?thesis
    by simp
qed

lemma close_rtc_relay_connection_clears:
  "close_rtc_relay_connection outcome (s, calls) =
     (Inr (), (s\<lparr>relay_rtc_peer_connection := None, relay_rtc_data_channel := None\<rparr>,
               calls @ prior_closes s))"
  by (cases s) (simp add: close_rtc_relay_connection_def prior_closes_def and_then_def gets_def
      try_finally_def attempt_def call_def ret_def modify_def split: option.splits)

lemma and_then_close:
  "and_then (close_rtc_relay_connection outcome) f (s, calls) =
     f () (s\<lparr>relay_rtc_peer_connection := None, relay_rtc_data_channel := None\<rparr>,
           calls @ prior_closes s)"
  by (simp add: and_then_def close_rtc_relay_connection_clears)

lemma offer_without_session:
  "go2 s = None \<Longrightarrow>
   offer E outcome new_pc answer (s, calls) =
     (Inl (Exn StateException
        (JStr (''connection to the go2 hasn'' @ [CHR 0x27]
               @ ''t been established yet, call /connect first''))),
      (s, calls))"
  by (simp add: offer_def and_then_gets raise_def)

lemma offer_with_session:
  "go2 s \<noteq> None \<Longrightarrow>
   offer E outcome new_pc answer (s, calls) =
     attempt (create_relay_session E outcome new_pc answer)
       (\<lambda>e. raise (Exn StateException
               (JStr ''Failed to create relay rtc sessiondescriptionprotocol (SDP)'')))
       (s\<lparr>relay_rtc_peer_connection := None, relay_rtc_data_channel := None\<rparr>,
        calls @ prior_closes s)"
  by (auto simp add: offer_def and_then_gets and_then_close)

text \<open>
  C4. Without a session of the robot, \<open>offer\<close> raises \<open>StateException\<close> and leaves the
  state as it was, no call made. With one, \<open>close\<close> is called on the peer connection
  and on the data channel of the client that the state holds, both are cleared, and
  only then the new session is created, from the cleared state: the closing calls come
  first, the constructor of the new peer connection right after them, and nothing is
  closed afterwards. After the call the state holds no data channel; it holds the new
  peer connection, or none if the constructor has raised, never the prior one.
\<close>

theorem offer_closes_prior_session:
  "(go2 s = None \<longrightarrow>
      offer E outcome new_pc answer (s, calls) =
        (Inl (Exn StateException
           (JStr (''connection to the go2 hasn'' @ [CHR 0x27]
                  @ ''t been established yet, call /connect first''))),
         (s, calls))) \<and>
   (go2 s \<noteq> None \<longrightarrow>
      offer E outcome new_pc answer (s, calls) =
        attempt (create_relay_session E outcome new_pc answer)
          (\<lambda>e. raise (Exn StateException
                  (JStr ''Failed to create relay rtc sessiondescriptionprotocol (SDP)'')))
          (s\<lparr>relay_rtc_peer_connection := None, relay_rtc_data_channel := None\<rparr>,
           calls @ prior_closes s) \<and>
      (\<exists>rest. snd (snd (offer E outcome new_pc answer (s, calls))) =
                calls @ prior_closes s @ CreatePeerConnection # rest \<and>
              (\<forall>c\<in>set rest. \<not> is_close c)) \<and>
      relay_rtc_data_channel (fst (snd (offer E outcome new_pc answer (s, calls)))) = None \<and>
      relay_rtc_peer_connection (fst (snd (offer E outcome new_pc answer (s, calls)))) =
        (if outcome CreatePeerConnection = None then Some new_pc else None))"
proof (intro conjI impI)
  assume "go2 s = None"
  then show "offer E outcome new_pc answer (s, calls) =
      (Inl (Exn StateException
         (JStr (''connection to the go2 hasn'' @ [CHR 0x27]
                @ ''t been established yet, call /connect first''))),
       (s, calls))"
    by (rule offer_without_session)
next
  assume g: "go2 s \<noteq> None"
  then show "offer E outcome new_pc answer (s, calls) =
      attempt (create_relay_session E outcome new_pc answer)
        (\<lambda>e. raise (Exn StateException
                (JStr ''Failed to create relay rtc sessiondescriptionprotocol (SDP)'')))
        (s\<lparr>relay_rtc_peer_connection := None, relay_rtc_data_channel := None\<rparr>,
         calls @ prior_closes s)"
    by (rule offer_with_session)
next
  assume g: "go2 s \<noteq> None"
  from session_calls [of E outcome new_pc answer
      "s\<lparr>relay_rtc_peer_connection := None, relay_rtc_data_channel := None\<rparr>"
      "calls @ prior_closes s"]
  obtain r s1 rest where 1: "create_relay_session E outcome new_pc answer
        (s\<lparr>relay_rtc_peer_connection := None, relay_rtc_data_channel := None\<rparr>,
         calls @ prior_closes s) =
        (r, (s1, (calls @ prior_closes s) @ CreatePeerConnection # rest))"
    and 2: "\<forall>c\<in>set rest. \<not> is_close c"
    by blast
  from 1 have "snd (snd (offer E outcome new_pc answer (s, calls))) =
      calls @ prior_closes s @ CreatePeerConnection # rest"
    by (simp add: offer_with_session [OF g] attempt_raise split: sum.splits)
  with 2 show "\<exists>rest. snd (snd (offer E outcome new_pc answer (s, calls))) =
      calls @ prior_closes s @ CreatePeerConnection # rest \<and> (\<forall>c\<in>set rest. \<not> is_close c)"
    by blast
next
  assume g: "go2 s \<noteq> None"
  from session_calls [of E outcome new_pc answer
      "s\<lparr>relay_rtc_peer_connection := None, relay_rtc_data_channel := None\<rparr>"
      "calls @ prior_closes s"]
  obtain r s1 rest where 1: "create_relay_session E outcome new_pc answer
        (s\<lparr>relay_rtc_peer_connection := None, relay_rtc_data_channel := None\<rparr>,
         calls @ prior_closes s) =
        (r, (s1, (calls @ prior_closes s) @ CreatePeerConnection # rest))"
    and 3: "relay_rtc_data_channel s1 = None"
    by auto
  from 1 3 show "relay_rtc_data_channel (fst (snd (offer E outcome new_pc answer (s, calls)))) = None"
    by (simp add: offer_with_session [OF g] attempt_raise split: sum.splits)
next
  assume g: "go2 s \<noteq> None"
  from session_calls [of E outcome new_pc answer
      "s\<lparr>relay_rtc_peer_connection := None, relay_rtc_data_channel := None\<rparr>"
      "calls @ prior_closes s"]
  obtain r s1 rest where 1: "create_relay_session E outcome new_pc answer
        (s\<lparr>relay_rtc_peer_connection := None, relay_rtc_data_channel := None\<rparr>,
         calls @ prior_closes s) =
        (r, (s1, (calls @ prior_closes s) @ CreatePeerConnection # rest))"
    and 4: "relay_rtc_peer_connection s1 =
        (if outcome CreatePeerConnection = None then Some new_pc else None)"
    by auto
  from 1 4 show "relay_rtc_peer_connection (fst (snd (offer E outcome new_pc answer (s, calls)))) =
      (if outcome CreatePeerConnection = None then Some new_pc else None)"
    by (simp add: offer_with_session [OF g] attempt_raise split: sum.splits)
qed

theorem offer_closes_prior_session_witness:
  "go2 initial_state = None \<and>
   offer sample_env (\<lambda>c. None) 2 (''v=0'', ''answer'') (initial_state, []) =
     (Inl (Exn StateException
        (JStr (''connection to the go2 hasn'' @ [CHR 0x27]
               @ ''t been established yet, call /connect first''))),
      (initial_state, [])) \<and>
   go2 relaying_state \<noteq> None \<and>
   (\<exists>rest. snd (snd (offer sample_env (\<lambda>c. None) 2 (''v=0'', ''answer'') (relaying_state, []))) =
      [ClosePeerConnection 1, CloseDataChannel client_channel, CreatePeerConnection] @ rest \<and>
      (\<forall>c\<in>set rest. \<not> is_close c)) \<and>
   relay_rtc_data_channel
     (fst (snd (offer sample_env (\<lambda>c. None) 2 (''v=0'', ''answer'') (relaying_state, [])))) = None \<and>
   relay_rtc_peer_connection
     (fst (snd (offer sample_env (\<lambda>c. None) 2 (''v=0'', ''answer'') (relaying_state, [])))) = Some 2"
proof -
  have n: "go2 initial_state = None"
    by (simp add: initial_state_def)
  have g: "go2 relaying_state \<noteq> None"
    by (simp add: relaying_state_def)
  have p: "prior_closes relaying_state = [ClosePeerConnection 1, CloseDataChannel client_channel]"
    by (simp add: prior_closes_def relaying_state_def)
  from n offer_closes_prior_session [where s = initial_state and E = sample_env
      and outcome = "\<lambda>c. None" and new_pc = 2 and answer = "(''v=0'', ''answer'')" and calls = "[]"]
  have 1: "offer sample_env (\<lambda>c. None) 2 (''v=0'', ''answer'') (initial_state, []) =
     (Inl (Exn StateException
        (JStr (''connection to the go2 hasn'' @ [CHR 0x27]
               @ ''t been established yet, call /connect first''))),
      (initial_state, []))"
    by simp
  from p offer_closes_prior_session [where s = relaying_state and E = sample_env
      and outcome = "\<lambda>c. None" and new_pc = 2 and answer = "(''v=0'', ''answer'')" and calls = "[]",
      THEN conjunct2, THEN mp, OF g, THEN conjunct2]
  have 2: "(\<exists>rest. snd (snd (offer sample_env (\<lambda>c. None) 2 (''v=0'', ''answer'') (relaying_state, []))) =
      [ClosePeerConnection 1, CloseDataChannel client_channel, CreatePeerConnection] @ rest \<and>
      (\<forall>c\<in>set rest. \<not> is_close c)) \<and>
   relay_rtc_data_channel
     (fst (snd (offer sample_env (\<lambda>c. None) 2 (''v=0'', ''answer'') (relaying_state, [])))) = None \<and>
   relay_rtc_peer_connection
     (fst (snd (offer sample_env (\<lambda>c. None) 2 (''v=0'', ''answer'') (relaying_state, [])))) = Some 2"
    by simp
  from n g 1 2 show ?thesis
    by simp
qed

lemma retrigger_video_returns: "\<exists>s1. retrigger_video E (s, calls) = (Inr (), (s1, calls))"
proof (cases "go2 s")
  case None
  then show ?thesis
    by (simp add: retrigger_video_def attempt_def and_then_gets ret_def)
next
  case (Some c)
  from publish_returns [of E c "''''" "JStr ''on''" "''vid''"]
  obtain c1 where "publish E c '''' (JStr ''on'') ''vid'' = Inr c1"
    by blast
  with Some show ?thesis
    by (simp add: retrigger_video_def attempt_def gets_def and_then_def lift_def modify_def)
qed

lemma and_then_retrigger:
  "and_then (retrigger_video E) f (s, calls) =
     f () (fst (snd (retrigger_video E (s, calls))), calls)"
  using retrigger_video_returns [of E s calls] by (auto simp: and_then_def)

lemma session_returns_iff:
  "fst (create_relay_session E outcome new_pc answer (s, calls)) = Inr answer \<longleftrightarrow>
     (\<forall>c\<in>set (session_steps s). outcome c = None)"
  by (auto simp add: create_relay_session_def session_steps_def and_then_call and_then_modify
      and_then_gets and_then_ret and_then_retrigger ret_apply split: option.splits)

lemma session_returns_or_raises:
  "fst (create_relay_session E outcome new_pc answer (s, calls)) = Inr answer \<or>
   (\<exists>e. fst (create_relay_session E outcome new_pc answer (s, calls)) = Inl e)"
  by (auto simp add: create_relay_session_def session_steps_def and_then_call and_then_modify
      and_then_gets and_then_ret and_then_retrigger ret_apply split: option.splits)

lemma fst_attempt_raise:
  "fst (attempt m (\<lambda>e. raise x) w) =
     (case fst (m w) of Inl e \<Rightarrow> Inl x | Inr v \<Rightarrow> Inr v)"
  by (simp add: attempt_raise split: prod.splits sum.splits)

text \<open>
  C10. With a session of the robot, \<open>offer\<close> returns the answer exactly when none of the
  calls inside its \<open>try\<close> raises; when one of them raises, whatever the exception, \<open>offer\<close>
  raises the one \<open>StateException\<close>, which the HTTP boundary answers with 409 and the tag
  \<open>state_exception\<close>. The calls that close the prior session are outside the \<open>try\<close>, and
  their exceptions are logged: they change nothing of this.
\<close>

theorem offer_failure_is_state_conflict:
  assumes "go2 s \<noteq> None"
  shows "((\<forall>c\<in>set (session_steps s). outcome c = None) \<longrightarrow>
        fst (offer E outcome new_pc answer (s, calls)) = Inr answer) \<and>
     ((\<exists>c\<in>set (session_steps s). outcome c \<noteq> None) \<longrightarrow>
        fst (offer E outcome new_pc answer (s, calls)) =
          Inl (Exn StateException
                 (JStr ''Failed to create relay rtc sessiondescriptionprotocol (SDP)''))) \<and>
     http_response aliased ro
       (Exn StateException (JStr ''Failed to create relay rtc sessiondescriptionprotocol (SDP)'')) =
       tagged_response 409 ''Failed to create relay rtc sessiondescriptionprotocol (SDP)''
         ''state_exception''"
proof -
  let ?w = "(s\<lparr>relay_rtc_peer_connection := None, relay_rtc_data_channel := None\<rparr>,
      calls @ prior_closes s)"
  have st: "session_steps (s\<lparr>relay_rtc_peer_connection := None, relay_rtc_data_channel := None\<rparr>)
      = session_steps s"
    by (simp add: session_steps_def)
  have iff: "fst (create_relay_session E outcome new_pc answer ?w) = Inr answer \<longleftrightarrow>
      (\<forall>c\<in>set (session_steps s). outcome c = None)"
    by (simp only: session_returns_iff st)
  have o: "fst (offer E outcome new_pc answer (s, calls)) =
      (case fst (create_relay_session E outcome new_pc answer ?w) of
         Inl e \<Rightarrow> Inl (Exn StateException
                    (JStr ''Failed to create relay rtc sessiondescriptionprotocol (SDP)''))
       | Inr v \<Rightarrow> Inr v)"
    by (simp only: offer_with_session [OF assms] fst_attempt_raise)
  have a: "(\<forall>c\<in>set (session_steps s). outcome c = None) \<longrightarrow>
      fst (offer E outcome new_pc answer (s, calls)) = Inr answer"
  proof
    assume "\<forall>c\<in>set (session_steps s). outcome c = None"
    then have "fst (create_relay_session E outcome new_pc answer ?w) = Inr answer"
      by (simp only: iff)
    with o show "fst (offer E outcome new_pc answer (s, calls)) = Inr answer"
      by simp
  qed
  have b: "(\<exists>c\<in>set (session_steps s). outcome c \<noteq> None) \<longrightarrow>
      fst (offer E outcome new_pc answer (s, calls)) =
        Inl (Exn StateException
               (JStr ''Failed to create relay rtc sessiondescriptionprotocol (SDP)''))"
  proof
    assume "\<exists>c\<in>set (session_steps s). outcome c \<noteq> None"
    then have "\<not> (\<forall>c\<in>set (session_steps s). outcome c = None)"
      by (simp only: bex_simps ball_simps)
    then have "fst (create_relay_session E outcome new_pc answer ?w) \<noteq> Inr answer"
      by (simp only: iff simp_thms)
    with session_returns_or_raises [of E outcome new_pc answer
        "s\<lparr>relay_rtc_peer_connection := None, relay_rtc_data_channel := None\<rparr>"
        "calls @ prior_closes s"]
    obtain e where "fst (create_relay_session E outcome new_pc answer ?w) = Inl e"
      by blast
    with o show "fst (offer E outcome new_pc answer (s, calls)) =
        Inl (Exn StateException
               (JStr ''Failed to create relay rtc sessiondescriptionprotocol (SDP)''))"
      by simp
  qed
  from a b http_response_state_exception show ?thesis
    by (simp only: simp_thms)
qed

theorem offer_failure_is_state_conflict_witness:
  "go2 relaying_state \<noteq> None \<and>
   fst (offer sample_env (\<lambda>c. None) 2 (''v=0'', ''answer'') (relaying_state, [])) =
     Inr (''v=0'', ''answer'') \<and>
   fst (offer sample_env
          (\<lambda>c. if c = SetRemoteDescription
                then Some (Exn RuntimeError (JStr ''bad sdp'')) else None)
          2 (''v=0'', ''answer'') (relaying_state, [])) =
     Inl (Exn StateException
            (JStr ''Failed to create relay rtc sessiondescriptionprotocol (SDP)'')) \<and>
   status_code (http_response False sample_repr
     (Exn StateException
        (JStr ''Failed to create relay rtc sessiondescriptionprotocol (SDP)''))) = 409"
proof -
  have g: "go2 relaying_state \<noteq> None"
    by (simp add: relaying_state_def)
  have st: "session_steps relaying_state =
      [CreatePeerConnection, RegisterDatachannelHook, SetRemoteDescription, CreateAnswer,
       SetLocalDescription, ReadLocalDescription]"
    by (simp add: session_steps_def relaying_state_def)
  from st offer_failure_is_state_conflict [OF g, where outcome = "\<lambda>c. None" and E = sample_env
      and new_pc = 2 and answer = "(''v=0'', ''answer'')" and calls = "[]"
      and aliased = False and ro = sample_repr]
  have 1: "fst (offer sample_env (\<lambda>c. None) 2 (''v=0'', ''answer'') (relaying_state, [])) =
     Inr (''v=0'', ''answer'') \<and>
     status_code (http_response False sample_repr
       (Exn StateException
          (JStr ''Failed to create relay rtc sessiondescriptionprotocol (SDP)''))) = 409"
    by (simp add: tagged_response_def)
  from st offer_failure_is_state_conflict [OF g,
      where outcome = "\<lambda>c. if c = SetRemoteDescription
                then Some (Exn RuntimeError (JStr ''bad sdp'')) else None"
      and E = sample_env and new_pc = 2 and answer = "(''v=0'', ''answer'')" and calls = "[]"]
  have 2: "fst (offer sample_env
          (\<lambda>c. if c = SetRemoteDescription
                then Some (Exn RuntimeError (JStr ''bad sdp'')) else None)
          2 (''v=0'', ''answer'') (relaying_state, [])) =
     Inl (Exn StateException
            (JStr ''Failed to create relay rtc sessiondescriptionprotocol (SDP)''))"
    by simp
  from g 1 2 show ?thesis
    by simp
qed

section \<open>The handler of the messages of the robot\<close>

lemma publish_open:
  "readyState (data_channel c) = ''open'' \<Longrightarrow>
   publish E c topic d ty =
     Inr (c\<lparr>data_channel := (data_channel c)\<lparr>sent := sent (data_channel c) @
            [Str (json_dumps E (JObj [(''type'', JStr ty), (''topic'', JStr topic), (''data'', d)]))]\<rparr>\<rparr>)"
  by (simp add: publish_def try_except_def bindE_def channel_send_def)

lemma force_open_open: "readyState (force_open ch) = ''open''"
  by (simp add: force_open_def)

lemma force_open_sent: "sent (force_open ch) = sent ch"
  by (simp add: force_open_def)

lemma validate_robot_conn_result:
  assumes "\<not> is_validated c"
  shows "\<exists>c1 calls. validate_robot_conn E c d = Inr (c1, calls) \<and>
     has_on_validated c1 = has_on_validated c \<and>
     validated_calls calls = (if is_validated c1 \<and> has_on_validated c then 1 else 0)"
proof (cases "d = JStr ''Validation Ok.''")
  case True
  from publish_returns [of E c "''''" "JStr ''on''" "''vid''"]
  obtain c1 where "publish E c '''' (JStr ''on'') ''vid'' = Inr c1"
    and "has_on_validated c1 = has_on_validated c"
    by blast
  with True show ?thesis
    by (simp add: validate_robot_conn_def try_except_def bindE_def validated_calls_def)
next
  case False
  show ?thesis
  proof (cases "encrypt_key E d")
    case (Inl e)
    with False assms show ?thesis
      by (simp add: validate_robot_conn_def try_except_def bindE_def validated_calls_def)
  next
    case (Inr k)
    from publish_returns [of E c "''''" k "''validation''"]
    obtain c1 where "publish E c '''' k ''validation'' = Inr c1"
      and "has_on_validated c1 = has_on_validated c" and "is_validated c1 = is_validated c"
      by blast
    with False Inr assms show ?thesis
      by (simp add: validate_robot_conn_def try_except_def bindE_def validated_calls_def)
  qed
qed

lemma hand_to_on_message_result:
  "hand_to_on_message E c obj m = Inr (c1, calls) \<Longrightarrow> c1 = c \<and> validated_calls calls = 0"
  by (auto simp add: hand_to_on_message_def bindE_def validated_calls_def
      split: if_splits sum.splits option.splits)

lemma handler_step:
  "\<exists>c1 calls. on_data_channel_message E c m = Inr (c1, calls) \<and>
     has_on_validated c1 = has_on_validated c \<and>
     (is_validated c \<longrightarrow> is_validated c1 \<and> validated_calls calls = 0) \<and>
     (\<not> is_validated c \<longrightarrow>
        validated_calls calls = (if is_validated c1 \<and> has_on_validated c then 1 else 0))"
proof -
  define c0 where "c0 = c\<lparr>data_channel := force_open (data_channel c)\<rparr>"
  have v: "is_validated c0 = is_validated c" and h: "has_on_validated c0 = has_on_validated c"
    by (simp_all add: c0_def)
  define body where "body = bindE (parse_if_unvalidated E c0 m) (\<lambda>raw_message_obj.
           case raw_message_obj of
             None \<Rightarrow> hand_to_on_message E c0 None m
           | Some obj \<Rightarrow>
               bindE (subscript obj ''type'') (\<lambda>ty.
                 if ty = JStr ''validation''
                 then bindE (subscript obj ''data'') (validate_robot_conn E c0)
                 else hand_to_on_message E c0 (Some obj) m))"
  have o: "on_data_channel_message E c m = try_except body (\<lambda>e. Inr (c0, []))"
    unfolding on_data_channel_message_def Let_def body_def c0_def by (rule refl)
  show ?thesis
  proof (cases body)
    case (Inl e)
    with o v h show ?thesis
      by (simp add: try_except_def validated_calls_def)
  next
    case (Inr r)
    obtain c1 calls where r: "r = (c1, calls)"
      by (cases r)
    have p: "has_on_validated c1 = has_on_validated c0 \<and>
       (is_validated c0 \<longrightarrow> is_validated c1 \<and> validated_calls calls = 0) \<and>
       (\<not> is_validated c0 \<longrightarrow>
          validated_calls calls = (if is_validated c1 \<and> has_on_validated c0 then 1 else 0))"
    proof (cases "parse_if_unvalidated E c0 m")
      case (Inl e)
      with Inr show ?thesis
        by (simp add: body_def bindE_def)
    next
      case pr: (Inr raw)
      show ?thesis
      proof (cases raw)
        case None
        with pr Inr r have "hand_to_on_message E c0 None m = Inr (c1, calls)"
          by (simp add: body_def bindE_def)
        from hand_to_on_message_result [OF this] show ?thesis
          by simp
      next
        case (Some obj)
        have u: "\<not> is_validated c0"
          using pr Some by (cases m) (auto simp: bindE_def split: if_splits)
        show ?thesis
        proof (cases "subscript obj ''type''")
          case (Inl e)
          with pr Some Inr show ?thesis
            by (simp add: body_def bindE_def)
        next
          case ty: (Inr ty)
          show ?thesis
          proof (cases "ty = JStr ''validation''")
            case False
            with pr Some ty Inr r have "hand_to_on_message E c0 (Some obj) m = Inr (c1, calls)"
              by (simp add: body_def bindE_def)
            from hand_to_on_message_result [OF this] u show ?thesis
              by simp
          next
            case True
            show ?thesis
            proof (cases "subscript obj ''data''")
              case (Inl e)
              with pr Some ty True Inr show ?thesis
                by (simp add: body_def bindE_def)
            next
              case d: (Inr d)
              with pr Some ty True Inr r have "validate_robot_conn E c0 d = Inr (c1, calls)"
                by (simp add: body_def bindE_def)
              with validate_robot_conn_result [OF u, of E d] u show ?thesis
                by auto
            qed
          qed
        qed
      qed
    qed
    from o Inr r have "on_data_channel_message E c m = Inr (c1, calls)"
      by (simp add: try_except_def)
    with p v h show ?thesis
      by simp
  qed
qed

lemma validated_calls_append:
  "validated_calls (xs @ ys) = validated_calls xs + validated_calls ys"
  by (simp add: validated_calls_def)

lemma session_counts:
  "\<exists>c1 calls. session E c ms = Inr (c1, calls) \<and>
     has_on_validated c1 = has_on_validated c \<and>
     (is_validated c \<longrightarrow> is_validated c1 \<and> validated_calls calls = 0) \<and>
     (\<not> is_validated c \<longrightarrow>
        validated_calls calls = (if is_validated c1 \<and> has_on_validated c then 1 else 0))"
proof (induction ms arbitrary: c)
  case Nil
  show ?case
    by (simp add: validated_calls_def)
next
  case (Cons m ms)
  from handler_step [of E c m]
  obtain c1 calls1 where 1: "on_data_channel_message E c m = Inr (c1, calls1)"
    and 2: "has_on_validated c1 = has_on_validated c"
    and 3: "is_validated c \<longrightarrow> is_validated c1 \<and> validated_calls calls1 = 0"
    and 4: "\<not> is_validated c \<longrightarrow>
        validated_calls calls1 = (if is_validated c1 \<and> has_on_validated c then 1 else 0)"
    by blast
  from Cons.IH [of c1]
  obtain c2 calls2 where 5: "session E c1 ms = Inr (c2, calls2)"
    and 6: "has_on_validated c2 = has_on_validated c1"
    and 7: "is_validated c1 \<longrightarrow> is_validated c2 \<and> validated_calls calls2 = 0"
    and 8: "\<not> is_validated c1 \<longrightarrow>
        validated_calls calls2 = (if is_validated c2 \<and> has_on_validated c1 then 1 else 0)"
    by blast
  from 1 5 have "session E c (m # ms) = Inr (c2, calls1 @ calls2)"
    by (simp add: bindE_def)
  moreover from 2 6 have "has_on_validated c2 = has_on_validated c"
    by simp
  moreover from 3 7 have "is_validated c \<longrightarrow>
      is_validated c2 \<and> validated_calls (calls1 @ calls2) = 0"
    by (simp add: validated_calls_append)
  moreover from 2 4 7 8 have "\<not> is_validated c \<longrightarrow>
      validated_calls (calls1 @ calls2) =
        (if is_validated c2 \<and> has_on_validated c then 1 else 0)"
    by (cases "is_validated c1") (simp_all add: validated_calls_append)
  ultimately show ?case
    by blast
qed

lemma try_except_Inr: "m = Inr v \<Longrightarrow> try_except m h = Inr v"
  by (simp add: try_except_def)

lemma validation_message_handled:
  assumes u: "\<not> is_validated c"
    and l: "json_loads E s = Some obj"
    and t: "subscript obj ''type'' = Inr (JStr ''validation'')"
    and d: "subscript obj ''data'' = Inr d"
  shows "on_data_channel_message E c (Str s) =
     validate_robot_conn E (c\<lparr>data_channel := force_open (data_channel c)\<rparr>) d"
proof -
  from u have u0: "\<not> is_validated (c\<lparr>data_channel := force_open (data_channel c)\<rparr>)"
    by simp
  from validate_robot_conn_result [OF u0, of E d]
  obtain c1 calls
    where v: "validate_robot_conn E (c\<lparr>data_channel := force_open (data_channel c)\<rparr>) d =
      Inr (c1, calls)"
    by blast
  from u l t d v show ?thesis
    by (simp add: on_data_channel_message_def Let_def parse_datachannel_message_def
        bindE_def try_except_def)
qed

lemma validation_ok:
  "readyState (data_channel c) = ''open'' \<Longrightarrow>
   validate_robot_conn E c (JStr ''Validation Ok.'') =
     Inr (c\<lparr>data_channel := (data_channel c)\<lparr>sent := sent (data_channel c) @
            [Str (json_dumps E (JObj [(''type'', JStr ''vid''), (''topic'', JStr ''''),
                                       (''data'', JStr ''on'')]))]\<rparr>,
            is_validated := True\<rparr>,
          if has_on_validated c then [OnValidated (robot_num c)] else [])"
  by (simp add: validate_robot_conn_def publish_open try_except_def bindE_def)

lemma validation_challenge:
  "readyState (data_channel c) = ''open'' \<Longrightarrow> d \<noteq> JStr ''Validation Ok.'' \<Longrightarrow>
   encrypt_key E d = Inr k \<Longrightarrow>
   validate_robot_conn E c d =
     Inr (c\<lparr>data_channel := (data_channel c)\<lparr>sent := sent (data_channel c) @
            [Str (json_dumps E (JObj [(''type'', JStr ''validation''), (''topic'', JStr ''''),
                                       (''data'', k)]))]\<rparr>\<rparr>,
          [])"
  by (simp add: validate_robot_conn_def publish_open try_except_def bindE_def)

lemma validation_not_ok:
  assumes "d \<noteq> JStr ''Validation Ok.''"
  shows "\<exists>c1. validate_robot_conn E c d = Inr (c1, []) \<and> is_validated c1 = is_validated c"
proof (cases "encrypt_key E d")
  case (Inl e)
  with assms show ?thesis
    by (simp add: validate_robot_conn_def try_except_def bindE_def)
next
  case (Inr k)
  from publish_returns [of E c "''''" k "''validation''"]
  obtain c1 where "publish E c '''' k ''validation'' = Inr c1"
    and "is_validated c1 = is_validated c"
    by blast
  with assms Inr show ?thesis
    by (simp add: validate_robot_conn_def try_except_def bindE_def)
qed

text \<open>
  C6. A message of type \<open>validation\<close> that reaches a connection not yet validated is
  handled by \<open>validate_robot_conn\<close>. If its data is \<open>Validation Ok.\<close>, the message
  \<open>{"type": "vid", "topic": "", "data": "on"}\<close> is sent on the channel of the robot,
  \<open>is_validated\<close> becomes true and the hook \<open>on_validated\<close>, if one is registered, is
  called with the number of the robot. Otherwise the data is given to \<open>encrypt_key\<close>
  and its result is sent back in a message of type \<open>validation\<close>; \<open>is_validated\<close> stays
  false, no hook is called and nothing is raised, also when \<open>encrypt_key\<close> raises. Over
  a whole session that starts unvalidated, whatever the messages, the handler never
  raises and the hook is called once if the session has become validated and a hook
  is registered, and not at all otherwise.
\<close>

theorem validation_handshake:
  assumes u: "\<not> is_validated c"
    and l: "json_loads E s = Some obj"
    and t: "subscript obj ''type'' = Inr (JStr ''validation'')"
    and d: "subscript obj ''data'' = Inr d"
  shows "(d = JStr ''Validation Ok.'' \<longrightarrow>
       on_data_channel_message E c (Str s) =
         Inr (c\<lparr>data_channel := (force_open (data_channel c))\<lparr>sent := sent (data_channel c) @
                [Str (json_dumps E (JObj [(''type'', JStr ''vid''), (''topic'', JStr ''''),
                                           (''data'', JStr ''on'')]))]\<rparr>,
                is_validated := True\<rparr>,
              if has_on_validated c then [OnValidated (robot_num c)] else [])) \<and>
     (d \<noteq> JStr ''Validation Ok.'' \<and> encrypt_key E d = Inr k \<longrightarrow>
       on_data_channel_message E c (Str s) =
         Inr (c\<lparr>data_channel := (force_open (data_channel c))\<lparr>sent := sent (data_channel c) @
                [Str (json_dumps E (JObj [(''type'', JStr ''validation''), (''topic'', JStr ''''),
                                           (''data'', k)]))]\<rparr>\<rparr>,
              [])) \<and>
     (d \<noteq> JStr ''Validation Ok.'' \<longrightarrow>
       (\<exists>c1. on_data_channel_message E c (Str s) = Inr (c1, []) \<and> \<not> is_validated c1)) \<and>
     (\<forall>ms. \<exists>c1 calls. session E c ms = Inr (c1, calls) \<and>
        validated_calls calls = (if is_validated c1 \<and> has_on_validated c then 1 else 0))"
proof (intro conjI impI allI)
  assume "d = JStr ''Validation Ok.''"
  with validation_message_handled [OF u l t d]
    validation_ok [of "c\<lparr>data_channel := force_open (data_channel c)\<rparr>" E]
  show "on_data_channel_message E c (Str s) =
         Inr (c\<lparr>data_channel := (force_open (data_channel c))\<lparr>sent := sent (data_channel c) @
                [Str (json_dumps E (JObj [(''type'', JStr ''vid''), (''topic'', JStr ''''),
                                           (''data'', JStr ''on'')]))]\<rparr>,
                is_validated := True\<rparr>,
              if has_on_validated c then [OnValidated (robot_num c)] else [])"
    by (simp add: force_open_open force_open_sent)
next
  assume "d \<noteq> JStr ''Validation Ok.'' \<and> encrypt_key E d = Inr k"
  with validation_message_handled [OF u l t d]
    validation_challenge [of "c\<lparr>data_channel := force_open (data_channel c)\<rparr>" d E k]
  show "on_data_channel_message E c (Str s) =
         Inr (c\<lparr>data_channel := (force_open (data_channel c))\<lparr>sent := sent (data_channel c) @
                [Str (json_dumps E (JObj [(''type'', JStr ''validation''), (''topic'', JStr ''''),
                                           (''data'', k)]))]\<rparr>\<rparr>,
              [])"
    by (simp add: force_open_open force_open_sent)
next
  assume "d \<noteq> JStr ''Validation Ok.''"
  from validation_not_ok [OF this, of E "c\<lparr>data_channel := force_open (data_channel c)\<rparr>"]
    validation_message_handled [OF u l t d] u
  show "\<exists>c1. on_data_channel_message E c (Str s) = Inr (c1, []) \<and> \<not> is_validated c1"
    by simp
next
  fix ms
  from session_counts [of E c ms] u
  show "\<exists>c1 calls. session E c ms = Inr (c1, calls) \<and>
        validated_calls calls = (if is_validated c1 \<and> has_on_validated c then 1 else 0)"
    by blast
qed

lemma sample_loads_challenge:
  "json_loads sample_env challenge_text =
     Some (JObj [(''type'', JStr ''validation''),
                 (''data'', JStr ''0123456789abcdef0123456789abcdef'')])"
  by (simp add: sample_env_def sample_loads_def challenge_text_def validation_ok_text_def)

lemma sample_loads_validation_ok:
  "json_loads sample_env validation_ok_text =
     Some (JObj [(''type'', JStr ''validation''), (''data'', JStr ''Validation Ok.'')])"
  by (simp add: sample_env_def sample_loads_def challenge_text_def validation_ok_text_def)

theorem validation_handshake_witness:
  "\<not> is_validated sample_connection \<and>
   on_data_channel_message sample_env sample_connection (Str validation_ok_text) =
     Inr (sample_connection
            \<lparr>data_channel := \<lparr>label = ''data'', readyState = ''open'', sent = [Str video_on_text]\<rparr>,
             is_validated := True\<rparr>,
          [OnValidated ''0'']) \<and>
   on_data_channel_message sample_env sample_connection (Str challenge_text) =
     Inr (sample_connection
            \<lparr>data_channel :=
               \<lparr>label = ''data'', readyState = ''open'', sent = [Str challenge_reply_text]\<rparr>\<rparr>,
          []) \<and>
   (\<exists>c1 calls.
      session sample_env sample_connection
        [Str challenge_text, Str validation_ok_text, Str validation_ok_text] = Inr (c1, calls) \<and>
      validated_calls calls = (if is_validated c1 then 1 else 0))"
proof -
  have u: "\<not> is_validated sample_connection"
    by (simp add: sample_connection_def new_Go2Connection_def)
  have h: "has_on_validated sample_connection" "robot_num sample_connection = ''0''"
    "data_channel sample_connection = \<lparr>label = ''data'', readyState = ''connecting'', sent = []\<rparr>"
    by (simp_all add: sample_connection_def new_Go2Connection_def default_args_def str_int_def)
  have e: "json_dumps sample_env
      (JObj [(''type'', JStr ''vid''), (''topic'', JStr ''''), (''data'', JStr ''on'')]) =
      video_on_text"
    "encrypt_key sample_env (JStr ''0123456789abcdef0123456789abcdef'') =
      Inr (JStr ''JJRq0MhtSej9qSAlDNeyFg=='')"
    "json_dumps sample_env
      (JObj [(''type'', JStr ''validation''), (''topic'', JStr ''''),
             (''data'', JStr ''JJRq0MhtSej9qSAlDNeyFg=='')]) = challenge_reply_text"
    by (simp_all add: sample_env_def sample_dumps_def sample_encrypt_key_def)
  from validation_handshake [OF u sample_loads_validation_ok, of "JStr ''Validation Ok.''"] h e
  have 1: "on_data_channel_message sample_env sample_connection (Str validation_ok_text) =
     Inr (sample_connection
            \<lparr>data_channel := \<lparr>label = ''data'', readyState = ''open'', sent = [Str video_on_text]\<rparr>,
             is_validated := True\<rparr>,
          [OnValidated ''0''])"
    by (simp add: force_open_def)
  from validation_handshake [OF u sample_loads_challenge,
      of "JStr ''0123456789abcdef0123456789abcdef''" "JStr ''JJRq0MhtSej9qSAlDNeyFg==''"] h e
  have 2: "on_data_channel_message sample_env sample_connection (Str challenge_text) =
     Inr (sample_connection
            \<lparr>data_channel :=
               \<lparr>label = ''data'', readyState = ''open'', sent = [Str challenge_reply_text]\<rparr>\<rparr>,
          [])"
    by (simp add: force_open_def)
  from validation_handshake [OF u sample_loads_validation_ok, of "JStr ''Validation Ok.''"] h
  have "\<forall>ms. \<exists>c1 calls. session sample_env sample_connection ms = Inr (c1, calls) \<and>
      validated_calls calls = (if is_validated c1 then 1 else 0)"
    by simp
  then have 3: "\<exists>c1 calls.
      session sample_env sample_connection
        [Str challenge_text, Str validation_ok_text, Str validation_ok_text] = Inr (c1, calls) \<and>
      validated_calls calls = (if is_validated c1 then 1 else 0)"
    by (rule spec)
  from u 1 2 3 show ?thesis
    by simp
qed

section \<open>Validation of the telemetry\<close>

lemma nonfinite_is_not_finite: "nonfinite x \<Longrightarrow> is_finite_number x = Inr False"
  by (cases x rule: nonfinite.cases) (simp_all add: is_finite_number_def)

lemma nonfinite_fails_all: "\<exists>x\<in>set xs. nonfinite x \<Longrightarrow> all_finite_numbers xs \<noteq> Inr True"
proof (induction xs)
  case Nil
  then show ?case by simp
next
  case (Cons a xs)
  show ?case
  proof (cases "nonfinite a")
    case True
    then show ?thesis
      by (simp add: nonfinite_is_not_finite)
  next
    case False
    with Cons.prems have "\<exists>x\<in>set xs. nonfinite x"
      by simp
    from Cons.IH [OF this] show ?thesis
      by (simp split: sum.splits)
  qed
qed

lemma validated_float_list_rejects:
  assumes "\<exists>x\<in>set xs. nonfinite x"
  shows "\<exists>e. validated_float_list ro (JArr xs) = Inl e"
proof (cases "all_finite_numbers xs")
  case (Inl e)
  then show ?thesis
    by (simp add: validated_float_list_def bindE_def)
next
  case (Inr ok)
  with nonfinite_fails_all [OF assms] have "\<not> ok"
    by simp
  with Inr show ?thesis
    by (simp add: validated_float_list_def bindE_def)
qed

lemma validated_float_rejects: "nonfinite x \<Longrightarrow> \<exists>e. validated_float rnd ro x = Inl e"
  by (simp add: validated_float_def bindE_def nonfinite_is_not_finite)

lemma robot_state_list_rejected:
  assumes k: "k \<in> set validated_state_lists"
    and v: "subscript data k = Inr (JArr xs)"
    and n: "\<exists>x\<in>set xs. nonfinite x"
  shows "\<exists>e. build_robot_state rnd ro data = Inl e"
proof -
  from validated_float_list_rejects [OF n] obtain e where "validated_float_list ro (JArr xs) = Inl e"
    by blast
  with k v show ?thesis
    by (auto simp add: validated_state_lists_def build_robot_state_def bindE_def
        split: sum.splits)
qed

lemma robot_state_height_rejected:
  assumes v: "subscript data ''body_height'' = Inr x" and n: "nonfinite x"
  shows "\<exists>e. build_robot_state rnd ro data = Inl e"
proof -
  from validated_float_rejects [OF n] obtain e where "validated_float rnd ro x = Inl e"
    by blast
  with v show ?thesis
    by (auto simp add: build_robot_state_def bindE_def split: sum.splits)
qed

lemma imu_list_rejected:
  assumes k: "k \<in> set validated_imu_lists"
    and v: "subscript imu k = Inr (JArr xs)"
    and n: "\<exists>x\<in>set xs. nonfinite x"
  shows "\<exists>e. build_imu_data ro imu = Inl e"
proof -
  from validated_float_list_rejects [OF n] obtain e where "validated_float_list ro (JArr xs) = Inl e"
    by blast
  with k v show ?thesis
    by (auto simp add: validated_imu_lists_def build_imu_data_def bindE_def
        split: sum.splits)
qed

lemma sport_mode_state_rejected:
  "build_robot_state rnd ro data = Inl e \<Longrightarrow> parse_sport_mode_state rnd ro data = Inr None"
  by (simp add: parse_sport_mode_state_def try_except_def bindE_def)

lemma sport_mode_imu_rejected:
  "subscript data ''imu_state'' = Inr imu \<Longrightarrow> build_imu_data ro imu = Inl e \<Longrightarrow>
   parse_sport_mode_state rnd ro data = Inr None"
  by (simp add: parse_sport_mode_state_def try_except_def bindE_def split: sum.splits)

text \<open>
  The lists \<open>position\<close>, \<open>range_obstacle\<close>, \<open>foot_position_body\<close> and \<open>foot_speed_body\<close>, the
  scalar \<open>body_height\<close>, and the lists \<open>quaternion\<close>, \<open>accelerometer\<close>, \<open>gyroscope\<close> and
  \<open>rpy\<close> of the IMU state are validated: a NaN or an infinity in one of them gives no
  record at all.
\<close>

lemma validated_fields_reject_nonfinite:
  "(k \<in> set validated_state_lists \<and> subscript data k = Inr (JArr xs) \<and>
      (\<exists>x\<in>set xs. nonfinite x) \<longrightarrow> parse_sport_mode_state rnd ro data = Inr None) \<and>
   (subscript data ''body_height'' = Inr x \<and> nonfinite x \<longrightarrow>
      parse_sport_mode_state rnd ro data = Inr None) \<and>
   (k \<in> set validated_imu_lists \<and> subscript data ''imu_state'' = Inr imu \<and>
      subscript imu k = Inr (JArr xs) \<and> (\<exists>x\<in>set xs. nonfinite x) \<longrightarrow>
      parse_sport_mode_state rnd ro data = Inr None)"
proof (intro conjI impI)
  assume "k \<in> set validated_state_lists \<and> subscript data k = Inr (JArr xs) \<and>
      (\<exists>x\<in>set xs. nonfinite x)"
  then obtain e where "build_robot_state rnd ro data = Inl e"
    using robot_state_list_rejected [of k data xs rnd ro] by blast
  then show "parse_sport_mode_state rnd ro data = Inr None"
    by (rule sport_mode_state_rejected)
next
  assume "subscript data ''body_height'' = Inr x \<and> nonfinite x"
  then obtain e where "build_robot_state rnd ro data = Inl e"
    using robot_state_height_rejected [of data x rnd ro] by blast
  then show "parse_sport_mode_state rnd ro data = Inr None"
    by (rule sport_mode_state_rejected)
next
  assume a: "k \<in> set validated_imu_lists \<and> subscript data ''imu_state'' = Inr imu \<and>
      subscript imu k = Inr (JArr xs) \<and> (\<exists>x\<in>set xs. nonfinite x)"
  then obtain e where "build_imu_data ro imu = Inl e"
    using imu_list_rejected [of k imu xs ro] by blast
  with a show "parse_sport_mode_state rnd ro data = Inr None"
    by (simp add: sport_mode_imu_rejected)
qed

text \<open>The seven scalars of an odometry message are validated.\<close>

lemma odometry_rejects_nonfinite:
  assumes "subscript data ''pose'' = Inr pose"
    and "subscript pose ''position'' = Inr pos"
    and "subscript pose ''orientation'' = Inr ori"
    and "subscript pos ''x'' = Inr px" and "subscript pos ''y'' = Inr py"
    and "subscript pos ''z'' = Inr pz"
    and "subscript ori ''x'' = Inr ox" and "subscript ori ''y'' = Inr oy"
    and "subscript ori ''z'' = Inr oz" and "subscript ori ''w'' = Inr ow"
    and n: "\<exists>x\<in>set [px, py, pz, ox, oy, oz, ow]. nonfinite x"
  shows "parse_odometry_data data = Inr None"
proof -
  from nonfinite_fails_all [OF n] have "all_finite_numbers [px, py, pz, ox, oy, oz, ow] \<noteq> Inr True" .
  then have "(\<exists>e. all_finite_numbers [px, py, pz, ox, oy, oz, ow] = Inl e) \<or>
      all_finite_numbers [px, py, pz, ox, oy, oz, ow] = Inr False"
    by (cases "all_finite_numbers [px, py, pz, ox, oy, oz, ow]") simp_all
  with assms(1-10) show ?thesis
    by (auto simp add: parse_odometry_data_def try_except_def bindE_def simp del: all_finite_numbers.simps)
qed

text \<open>
  C2. The claim fails on the code for the fields \<open>velocity\<close>, \<open>foot_force\<close> and
  \<open>temperature\<close>, which \<open>parse_sport_mode_state\<close> copies without validating them. The
  sport mode state of the mock server with the velocity \<open>[NaN, 0.0, 0.0]\<close> yields a
  \<open>RobotState\<close> and an \<open>IMUData\<close>, the NaN in the velocity of the record.
\<close>

theorem nan_velocity_yields_a_record:
  "parse_sport_mode_state real_of_int sample_repr
     (sportmodestate_with (JArr [JFloat NaN, JFloat (Finite 0), JFloat (Finite 0)])
        (JFloat (Finite 0))) =
   Inr (Some
     (\<lparr>mode = JStr ''mock'', progress = JInt 0, gait_type = JStr ''mock'',
       state_position = JArr [JFloat (Finite 0), JFloat (Finite 0), JFloat (Finite 0)],
       body_height = Finite 0,
       velocity = JArr [JFloat NaN, JFloat (Finite 0), JFloat (Finite 0)],
       range_obstacle = JArr [], foot_force = JFloat (Finite 0),
       foot_position_body =
         JArr [JFloat (Finite 0), JFloat (Finite 0), JFloat (Finite 0), JFloat (Finite 0)],
       foot_speed_body =
         JArr [JFloat (Finite 0), JFloat (Finite 0), JFloat (Finite 0), JFloat (Finite 0)]\<rparr>,
      \<lparr>quaternion =
         JArr [JFloat (Finite 0), JFloat (Finite 0), JFloat (Finite 0), JFloat (Finite 1)],
       accelerometer = JArr [JFloat (Finite 0), JFloat (Finite 0), JFloat (Finite 0)],
       gyroscope = JArr [JFloat (Finite 0), JFloat (Finite 0), JFloat (Finite 0)],
       rpy = JArr [JFloat (Finite 0), JFloat (Finite 0), JFloat (Finite 0)],
       temperature = JFloat (Finite 0)\<rparr>))"
  by (simp add: sportmodestate_with_def parse_sport_mode_state_def build_robot_state_def
      build_imu_data_def bindE_def try_except_def validated_float_list_def validated_float_def
      is_finite_number_def)

text \<open>The same message with a NaN as body height yields no record.\<close>

lemma nan_body_height_yields_no_record:
  "parse_sport_mode_state real_of_int sample_repr
     (sportmodestate_with (JFloat (Finite 0)) (JFloat NaN)) = Inr None"
  by (simp add: sportmodestate_with_def parse_sport_mode_state_def build_robot_state_def
      build_imu_data_def bindE_def try_except_def validated_float_list_def validated_float_def
      is_finite_number_def)

text \<open>Whatever the velocity is, it is copied into the record.\<close>

lemma velocity_is_not_validated:
  "\<exists>rs imu. parse_sport_mode_state real_of_int sample_repr
       (sportmodestate_with v (JFloat (Finite 0))) = Inr (Some (rs, imu)) \<and>
     velocity rs = v"
  by (simp add: sportmodestate_with_def parse_sport_mode_state_def build_robot_state_def
      build_imu_data_def bindE_def try_except_def validated_float_list_def validated_float_def
      is_finite_number_def)

section \<open>Decoding errors and the relay of messages\<close>


lemma undecodable_is_dropped:
  assumes l: "json_loads E s = None" and p: "\<not> is_validated c \<or> decode_message c"
  shows "on_data_channel_message E c (Str s) =
     Inr (c\<lparr>data_channel := force_open (data_channel c)\<rparr>, [])"
proof (cases "is_validated c")
  case False
  with l show ?thesis
    by (simp add: on_data_channel_message_def Let_def parse_datachannel_message_def
        bindE_def try_except_def)
next
  case True
  with p have "decode_message c"
    by simp
  with True l show ?thesis
    by (simp add: on_data_channel_message_def Let_def parse_datachannel_message_def
        hand_to_on_message_def bindE_def try_except_def)
qed



lemma sample_loads_brace: "json_loads sample_env ''{'' = None"
  by (simp add: sample_env_def sample_loads_def challenge_text_def validation_ok_text_def)



lemma relayed_is_handed_over:
  assumes hm: "has_on_message c" and nd: "\<not> decode_message c" and r: "relayed E c m"
  shows "on_data_channel_message E c m =
     Inr (c\<lparr>data_channel := force_open (data_channel c)\<rparr>,
          [OnMessage ((new_RobotData (robot_num c))\<lparr>raw_message := Some m\<rparr>)])"
proof (cases m)
  case (Str s)
  show ?thesis
  proof (cases "is_validated c")
    case True
    with Str hm nd show ?thesis
      by (simp add: on_data_channel_message_def Let_def hand_to_on_message_def
          bindE_def try_except_def)
  next
    case False
    with Str r obtain obj ty where "json_loads E s = Some obj"
      and "subscript obj ''type'' = Inr ty" and "ty \<noteq> JStr ''validation''"
      by (auto split: option.splits sum.splits)
    with Str False hm nd show ?thesis
      by (simp add: on_data_channel_message_def Let_def hand_to_on_message_def
          parse_datachannel_message_def bindE_def try_except_def)
  qed
next
  case (Bytes b)
  with hm nd show ?thesis
    by (simp add: on_data_channel_message_def Let_def hand_to_on_message_def
        bindE_def try_except_def)
next
  case (NotData j)
  with hm nd show ?thesis
    by (simp add: on_data_channel_message_def Let_def hand_to_on_message_def
        bindE_def try_except_def)
qed

lemma validate_robot_conn_calls:
  "validate_robot_conn E c d = Inr (c1, calls) \<Longrightarrow> \<forall>x\<in>set calls. \<not> is_OnMessage x"
  by (auto simp add: validate_robot_conn_def try_except_def bindE_def
      split: if_splits sum.splits)

lemma not_relayed_is_consumed:
  assumes "\<not> relayed E c m"
  shows "\<exists>c1 calls. on_data_channel_message E c m = Inr (c1, calls) \<and>
     (\<forall>x\<in>set calls. \<not> is_OnMessage x)"
proof -
  from assms obtain s where m: "m = Str s" and u: "\<not> is_validated c"
    by (cases m) (auto split: if_splits)
  let ?c = "c\<lparr>data_channel := force_open (data_channel c)\<rparr>"
  show ?thesis
  proof (cases "json_loads E s")
    case None
    with m u show ?thesis
      by (simp add: on_data_channel_message_def Let_def parse_datachannel_message_def
          bindE_def try_except_def)
  next
    case (Some obj)
    show ?thesis
    proof (cases "subscript obj ''type''")
      case (Inl e)
      with m u Some show ?thesis
        by (simp add: on_data_channel_message_def Let_def parse_datachannel_message_def
            bindE_def try_except_def)
    next
      case (Inr ty)
      with assms m u Some have ty: "ty = JStr ''validation''"
        by simp
      show ?thesis
      proof (cases "subscript obj ''data''")
        case (Inl e)
        with m u Some Inr ty show ?thesis
          by (simp add: on_data_channel_message_def Let_def parse_datachannel_message_def
              bindE_def try_except_def)
      next
        case d: (Inr d)
        from u have "\<not> is_validated ?c"
          by simp
        from validate_robot_conn_result [OF this, of E d]
        obtain c1 calls where v: "validate_robot_conn E ?c d = Inr (c1, calls)"
          by blast
        from validate_robot_conn_calls [OF v] have "\<forall>x\<in>set calls. \<not> is_OnMessage x" .
        moreover from m u Some Inr ty d v
        have "on_data_channel_message E c m = Inr (c1, calls)"
          by (simp add: on_data_channel_message_def Let_def parse_datachannel_message_def
              bindE_def try_except_def)
        ultimately show ?thesis
          by blast
      qed
    qed
  qed
qed

lemma on_go2_message_sends:
  assumes "relay_rtc_data_channel s = Some ch" and "readyState ch = ''open''"
    and "is_data m" and "raw_message rd = Some m"
  shows "on_go2_message rd (s, calls) =
     (Inr (), (s\<lparr>relay_rtc_data_channel := Some (ch\<lparr>sent := sent ch @ [m]\<rparr>)\<rparr>, calls))"
  using assms
  by (cases m)
     (simp_all add: on_go2_message_def relay_send_def and_then_def gets_def attempt_def
       lift_def modify_def channel_send_def)

lemma publish_json_str_sends:
  "publish_json_str c x =
     Inr (if readyState (data_channel c) = ''open''
          then c\<lparr>data_channel := (data_channel c)\<lparr>sent := sent (data_channel c) @ [Str x]\<rparr>\<rparr>
          else c)"
  by (simp add: publish_json_str_def try_except_def bindE_def channel_send_def)

lemma on_datachannel_message_forwards:
  "go2 s = Some c \<Longrightarrow>
   on_datachannel_message (Str x) (s, calls) =
     (Inr (),
      (s\<lparr>go2 := Some (if readyState (data_channel c) = ''open''
            then c\<lparr>data_channel := (data_channel c)\<lparr>sent := sent (data_channel c) @ [Str x]\<rparr>\<rparr>
            else c)\<rparr>,
       calls))"
  by (simp add: on_datachannel_message_def and_then_def gets_def lift_def modify_def
      publish_json_str_sends)

text \<open>
  C1 (as the code has it). The connection \<open>connect\<close> constructs hands a message of the
  robot to \<open>on_message\<close>, as it came, when the message is \<open>bytes\<close>, when the connection is
  validated, or when the message is a string that decodes to an object of a type other
  than \<open>validation\<close>; every other message, those of the validation exchange among them,
  is consumed by the connection and no call of \<open>on_message\<close> is made. While the channel
  of the client is open, \<open>_on_go2_message\<close> sends the string or the bytes it is given on
  that channel, unchanged. A string of the client is given to \<open>publish_json_str\<close> of the
  stored connection, unchanged, which sends it on the channel of the robot, unchanged,
  if that channel is open.
\<close>

theorem relay_forwards_verbatim:
  "(has_on_message c \<and> \<not> decode_message c \<and> relayed E c m \<longrightarrow>
      on_data_channel_message E c m =
        Inr (c\<lparr>data_channel := force_open (data_channel c)\<rparr>,
             [OnMessage ((new_RobotData (robot_num c))\<lparr>raw_message := Some m\<rparr>)])) \<and>
   (\<not> relayed E c m \<longrightarrow>
      (\<exists>c1 calls. on_data_channel_message E c m = Inr (c1, calls) \<and>
         (\<forall>x\<in>set calls. \<not> is_OnMessage x))) \<and>
   (relay_rtc_data_channel s = Some ch \<and> readyState ch = ''open'' \<and> is_data m \<and>
    raw_message rd = Some m \<longrightarrow>
      on_go2_message rd (s, calls) =
        (Inr (), (s\<lparr>relay_rtc_data_channel := Some (ch\<lparr>sent := sent ch @ [m]\<rparr>)\<rparr>, calls))) \<and>
   (go2 s = Some g \<longrightarrow>
      publish_json_str g x =
        Inr (if readyState (data_channel g) = ''open''
             then g\<lparr>data_channel := (data_channel g)\<lparr>sent := sent (data_channel g) @ [Str x]\<rparr>\<rparr>
             else g) \<and>
      on_datachannel_message (Str x) (s, calls) =
        (Inr (),
         (s\<lparr>go2 := Some (if readyState (data_channel g) = ''open''
               then g\<lparr>data_channel := (data_channel g)\<lparr>sent := sent (data_channel g) @ [Str x]\<rparr>\<rparr>
               else g)\<rparr>,
          calls)))"
proof (intro conjI impI)
  assume "has_on_message c \<and> \<not> decode_message c \<and> relayed E c m"
  then show "on_data_channel_message E c m =
      Inr (c\<lparr>data_channel := force_open (data_channel c)\<rparr>,
           [OnMessage ((new_RobotData (robot_num c))\<lparr>raw_message := Some m\<rparr>)])"
    by (simp add: relayed_is_handed_over)
next
  assume "\<not> relayed E c m"
  then show "\<exists>c1 calls. on_data_channel_message E c m = Inr (c1, calls) \<and>
      (\<forall>x\<in>set calls. \<not> is_OnMessage x)"
    by (rule not_relayed_is_consumed)
next
  assume "relay_rtc_data_channel s = Some ch \<and> readyState ch = ''open'' \<and> is_data m \<and>
      raw_message rd = Some m"
  then show "on_go2_message rd (s, calls) =
      (Inr (), (s\<lparr>relay_rtc_data_channel := Some (ch\<lparr>sent := sent ch @ [m]\<rparr>)\<rparr>, calls))"
    by (simp add: on_go2_message_sends)
next
  show "publish_json_str g x =
      Inr (if readyState (data_channel g) = ''open''
           then g\<lparr>data_channel := (data_channel g)\<lparr>sent := sent (data_channel g) @ [Str x]\<rparr>\<rparr>
           else g)"
    by (rule publish_json_str_sends)
next
  assume "go2 s = Some g"
  then show "on_datachannel_message (Str x) (s, calls) =
      (Inr (),
       (s\<lparr>go2 := Some (if readyState (data_channel g) = ''open''
             then g\<lparr>data_channel := (data_channel g)\<lparr>sent := sent (data_channel g) @ [Str x]\<rparr>\<rparr>
             else g)\<rparr>,
        calls))"
    by (rule on_datachannel_message_forwards)
qed

theorem relay_forwards_verbatim_witness:
  "relayed sample_env (sample_connection\<lparr>is_validated := True\<rparr>) (Bytes [1, 2]) \<and>
   on_data_channel_message sample_env (sample_connection\<lparr>is_validated := True\<rparr>) (Bytes [1, 2]) =
     Inr (sample_connection
            \<lparr>is_validated := True,
             data_channel := \<lparr>label = ''data'', readyState = ''open'', sent = []\<rparr>\<rparr>,
          [OnMessage ((new_RobotData ''0'')\<lparr>raw_message := Some (Bytes [1, 2])\<rparr>)]) \<and>
   on_go2_message ((new_RobotData ''0'')\<lparr>raw_message := Some (Bytes [1, 2])\<rparr>)
     (relaying_state, []) =
     (Inr (),
      (relaying_state\<lparr>relay_rtc_data_channel :=
         Some \<lparr>label = ''data'', readyState = ''open'', sent = [Bytes [1, 2]]\<rparr>\<rparr>, [])) \<and>
   \<not> relayed sample_env sample_connection (Str validation_ok_text) \<and>
   (\<exists>c1 calls.
      on_data_channel_message sample_env sample_connection (Str validation_ok_text) =
        Inr (c1, calls) \<and> (\<forall>x\<in>set calls. \<not> is_OnMessage x)) \<and>
   on_datachannel_message (Str ''{}'') (relaying_state, []) =
     (Inr (), (relaying_state, []))"
proof -
  let ?c = "sample_connection\<lparr>is_validated := True\<rparr>"
  let ?rd = "(new_RobotData ''0'')\<lparr>raw_message := Some (Bytes [1, 2])\<rparr>"
  have c: "has_on_message ?c" "\<not> decode_message ?c" "robot_num ?c = ''0''"
    "data_channel ?c = \<lparr>label = ''data'', readyState = ''connecting'', sent = []\<rparr>"
    by (simp_all add: sample_connection_def new_Go2Connection_def default_args_def str_int_def)
  have r: "relayed sample_env ?c (Bytes [1, 2])"
    by simp
  have n: "\<not> relayed sample_env sample_connection (Str validation_ok_text)"
    by (simp add: sample_loads_validation_ok sample_connection_def new_Go2Connection_def)
  have s: "relay_rtc_data_channel relaying_state = Some client_channel"
    "readyState client_channel = ''open''" "go2 relaying_state = Some sample_connection"
    "readyState (data_channel sample_connection) \<noteq> ''open''"
    "sent client_channel = []"
    by (simp_all add: relaying_state_def client_channel_def sample_connection_def
        new_Go2Connection_def)
  note t = relay_forwards_verbatim [where E = sample_env and c = ?c and m = "Bytes [1, 2]"
      and s = relaying_state and ch = client_channel and rd = ?rd and calls = "[]"
      and g = sample_connection and x = "''{}''"]
  from t c r
  have 1: "on_data_channel_message sample_env ?c (Bytes [1, 2]) =
     Inr (sample_connection
            \<lparr>is_validated := True,
             data_channel := \<lparr>label = ''data'', readyState = ''open'', sent = []\<rparr>\<rparr>,
          [OnMessage ?rd])"
    by (simp add: force_open_def)
  from t s
  have 2: "on_go2_message ?rd (relaying_state, []) =
     (Inr (),
      (relaying_state\<lparr>relay_rtc_data_channel :=
         Some \<lparr>label = ''data'', readyState = ''open'', sent = [Bytes [1, 2]]\<rparr>\<rparr>, []))"
    by (simp add: client_channel_def)
  from t s
  have 3: "on_datachannel_message (Str ''{}'') (relaying_state, []) =
     (Inr (), (relaying_state, []))"
    by (simp add: relaying_state_def)
  from relay_forwards_verbatim [where E = sample_env and c = sample_connection
      and m = "Str validation_ok_text"] n
  have 4: "\<exists>c1 calls.
      on_data_channel_message sample_env sample_connection (Str validation_ok_text) =
        Inr (c1, calls) \<and> (\<forall>x\<in>set calls. \<not> is_OnMessage x)"
    by blast
  from r 1 2 n 4 3 show ?thesis
    by simp
qed

text \<open>
  C1 as stated fails, on three messages. While the channel of the client is open, the
  robot sends the string of a successful validation to a connection not yet validated:
  the connection consumes it, calling the validation hook and not \<open>on_message\<close>, so the
  string is not sent to the client. The robot sends the string \<open>{\<close>, which is not JSON, to
  the same connection: it is logged and dropped. The client sends the string \<open>{}\<close> while
  the channel of the robot is not yet open: \<open>publish_json_str\<close> drops it, and nothing is
  sent to the robot.
\<close>

theorem validation_message_not_relayed_counterexample:
  "relay_rtc_data_channel relaying_state = Some client_channel \<and>
   readyState client_channel = ''open'' \<and>
   on_data_channel_message sample_env sample_connection (Str validation_ok_text) =
     Inr (sample_connection
            \<lparr>data_channel := \<lparr>label = ''data'', readyState = ''open'', sent = [Str video_on_text]\<rparr>,
             is_validated := True\<rparr>,
          [OnValidated ''0'']) \<and>
   filter is_OnMessage [OnValidated ''0''] = [] \<and>
   on_data_channel_message sample_env sample_connection (Str ''{'') =
     Inr (sample_connection
            \<lparr>data_channel := \<lparr>label = ''data'', readyState = ''open'', sent = []\<rparr>\<rparr>, []) \<and>
   go2 relaying_state = Some sample_connection \<and>
   data_channel sample_connection =
     \<lparr>label = ''data'', readyState = ''connecting'', sent = []\<rparr> \<and>
   on_datachannel_message (Str ''{}'') (relaying_state, []) = (Inr (), (relaying_state, []))"
proof -
  have u: "\<not> is_validated sample_connection"
    by (simp add: sample_connection_def new_Go2Connection_def)
  have h: "has_on_validated sample_connection" "robot_num sample_connection = ''0''"
    "data_channel sample_connection = \<lparr>label = ''data'', readyState = ''connecting'', sent = []\<rparr>"
    by (simp_all add: sample_connection_def new_Go2Connection_def default_args_def str_int_def)
  have e: "json_dumps sample_env
      (JObj [(''type'', JStr ''vid''), (''topic'', JStr ''''), (''data'', JStr ''on'')]) =
      video_on_text"
    by (simp add: sample_env_def sample_dumps_def)
  have t: "subscript (JObj [(''type'', JStr ''validation''), (''data'', JStr ''Validation Ok.'')])
      ''type'' = Inr (JStr ''validation'')"
    and d: "subscript (JObj [(''type'', JStr ''validation''), (''data'', JStr ''Validation Ok.'')])
      ''data'' = Inr (JStr ''Validation Ok.'')"
    by simp_all
  from validation_message_handled [OF u sample_loads_validation_ok t d]
    validation_ok [of "sample_connection\<lparr>data_channel :=
      force_open (data_channel sample_connection)\<rparr>" sample_env] h e
  have 1: "on_data_channel_message sample_env sample_connection (Str validation_ok_text) =
     Inr (sample_connection
            \<lparr>data_channel := \<lparr>label = ''data'', readyState = ''open'', sent = [Str video_on_text]\<rparr>,
             is_validated := True\<rparr>,
          [OnValidated ''0''])"
    by (simp add: force_open_def)
  from u have "\<not> is_validated sample_connection \<or> decode_message sample_connection"
    by simp
  from undecodable_is_dropped [OF sample_loads_brace this] h
  have 2: "on_data_channel_message sample_env sample_connection (Str ''{'') =
     Inr (sample_connection
            \<lparr>data_channel := \<lparr>label = ''data'', readyState = ''open'', sent = []\<rparr>\<rparr>, [])"
    by (simp add: force_open_def)
  have g: "go2 relaying_state = Some sample_connection"
    by (simp add: relaying_state_def)
  from on_datachannel_message_forwards [OF g, of "''{}''" "[]"] h
  have 3: "on_datachannel_message (Str ''{}'') (relaying_state, []) =
      (Inr (), (relaying_state, []))"
    by (simp add: relaying_state_def)
  from 1 2 3 g h show ?thesis
    by (simp add: relaying_state_def client_channel_def)
qed

end
